theory Spec2Isabelle
  imports Complex_Main
begin

section \<open>The request engine of src/api-request.ts\<close>

text \<open>
  The development embeds the class \<open>APIRequest\<close> and the helpers of
  \<open>src/api-request.ts\<close>. Javascript objects are records, an absent property is
  \<open>None\<close>, and an object used as a dictionary is an association list read with
  \<open>map_of\<close>. Status codes and retry counts are integers (\<open>int\<close>); durations in
  milliseconds are \<open>real option\<close>, where \<open>None\<close> is the number \<open>NaN\<close>.

  Three conventions hold throughout. A property is either absent or present with a
  value: a property present with the value \<open>undefined\<close> is not told apart from an
  absent one. Objects are values: \<open>err.request\<close> is the object \<open>this.request\<close>,
  whose \<open>headers\<close> is the object \<open>config.request.headers\<close>, and since the module
  assigns to none of their properties the copies of the model agree with them. The
  functions handed in from outside, the custom retry strategy and the listeners of the
  event bus, return normally.
\<close>

subsection \<open>Data\<close>

text \<open>Values of a header, query or form entry: \<open>string | number | boolean\<close>.\<close>

datatype jsval = JStr string | JNum real | JBool bool

text \<open>Javascript truthiness, as \<open>if (v)\<close> tests it.\<close>

fun truthy :: "jsval \<Rightarrow> bool" where
  "truthy (JStr s) = (s \<noteq> [])"
| "truthy (JNum n) = (n \<noteq> 0)"
| "truthy (JBool b) = b"

type_synonym dict = "(string \<times> jsval) list"

text \<open>\<open>config.request\<close>: the options the request was built from.\<close>

record request_options =
  opt_url :: string
  opt_method :: string
  opt_headers :: "dict option"
  opt_qs :: "dict option"
  opt_body :: "string option"
  opt_form :: "dict option"
  opt_formData :: "dict option"

text \<open>
  \<open>this.request\<close>: the \<open>AxiosRequestConfig\<close> that \<open>execute\<close> builds. Its field
  \<open>validateStatus\<close> is the constant function \<open>true\<close>; it is reflected in the
  transport below, which hands over every status code as a response.
\<close>

record axios_request =
  req_url :: string
  req_method :: string
  req_headers :: "dict option"
  req_data :: string
  req_maxRedirects :: nat
  req_responseType :: "string option"

text \<open>\<open>APIRequestResponseObject\<close>.\<close>

record api_response =
  resp_request :: axios_request
  resp_status :: int
  resp_headers :: "(string \<times> string) list"
  resp_data :: "string option"

text \<open>\<open>APIRequestError\<close>: an \<open>Error\<close> with the properties the engine attaches.\<close>

record api_error =
  err_message :: string
  err_request :: "axios_request option"
  err_response :: "api_response option"
  err_status :: "int option"
  err_maxRetriesExceeded :: "bool option"

definition Error :: "string \<Rightarrow> api_error" where
  "Error msg = \<lparr>err_message = msg, err_request = None, err_response = None,
                 err_status = None, err_maxRetriesExceeded = None\<rparr>"

text \<open>The argument and the result of a custom retry strategy.\<close>

record retry_options =
  ro_error :: api_error
  ro_numRetryAttempts :: int
  ro_numMaxRetries :: int
  ro_retryIntervalMS :: real
  ro_totalElapsedTimeMS :: real

datatype strategy_result =
    Number "real option"     \<comment> \<open>\<open>typeof retryTimeout === 'number'\<close>\<close>
  | ErrorValue api_error     \<comment> \<open>\<open>retryTimeout instanceof Error\<close>\<close>
  | OtherValue               \<comment> \<open>anything else\<close>

record config =
  cfg_request :: request_options
  numMaxRetries :: int
  retryIntervalMS :: real
  retryStrategy :: "(retry_options \<Rightarrow> strategy_result) option"

text \<open>
  What the module imports and the platform provides, taken as parameters: the transport
  \<open>axios\<close> (the outcome of the i-th call, a rejection on the left), the clock
  \<open>process.hrtime(asyncRequestTimer)\<close>, \<open>getRetryTimeout\<close> of
  \<open>util/exponential-backoff\<close>, \<open>qs.stringify\<close>, the table of the package
  \<open>http-status\<close>, and the language's conversions of a number to a string and of a
  string to a number.
\<close>

record environment =
  axios :: "nat \<Rightarrow> axios_request \<Rightarrow> api_error + api_response"
  hrtime :: "nat \<Rightarrow> int \<times> int"
  getRetryTimeout :: "int \<Rightarrow> real \<Rightarrow> real"
  stringify :: "dict option \<Rightarrow> string"
  httpStatusCodes :: "int \<Rightarrow> string"
  numberToString :: "int \<Rightarrow> string"
  toNumber :: "string \<Rightarrow> real option"

type_synonym callback = nat

text \<open>An outcome \<open>(err, response)\<close>, as emitted on the event bus.\<close>

type_synonym outcome = "api_error option \<times> api_response option"

text \<open>
  The instance fields of \<open>APIRequest\<close>, followed by the part of the platform it acts
  on: the queue of \<open>process.nextTick\<close>, the pending timers of \<open>setTimeout\<close> (each
  one re-runs \<open>execute\<close>), and what has been observed so far: the requests handed to
  the transport, the \<open>response\<close> events emitted, the calls of the completion callback
  and the exceptions thrown.
\<close>

record api_state =
  this_config :: config
  this_isRetryable :: bool
  this_callback :: "callback option"
  this_request :: "axios_request option"
  this_response :: "api_response option"
  this_numRetries :: "int option"
  nextTickQueue :: "(callback option \<times> outcome) list"
  timers :: "real option list"
  sent :: "axios_request list"
  emitted :: "outcome list"
  delivered :: "(callback \<times> outcome) list"
  thrown :: "string list"

subsection \<open>Private helpers\<close>

definition REMOVED_HEADER_MESSAGE :: string where
  "REMOVED_HEADER_MESSAGE = ''[REMOVED BY SDK]''"

definition HTTP_STATUS_CODE_SERVER_ERROR_BLOCK_RANGE :: "int \<times> int" where
  "HTTP_STATUS_CODE_SERVER_ERROR_BLOCK_RANGE = (500, 599)"

text \<open>The three constants of \<open>http-status\<close> the module reads.\<close>

definition REQUEST_TIMEOUT :: int where "REQUEST_TIMEOUT = 408"
definition TOO_MANY_REQUESTS :: int where "TOO_MANY_REQUESTS = 429"
definition INSUFFICIENT_STORAGE :: int where "INSUFFICIENT_STORAGE = 507"

definition retryableStatusCodes :: "(int \<times> bool) list" where
  "retryableStatusCodes = [(REQUEST_TIMEOUT, True), (TOO_MANY_REQUESTS, True)]"

definition isTemporaryError :: "api_response \<Rightarrow> bool" where
  "isTemporaryError response =
     (let statusCode = resp_status response in
      if statusCode \<noteq> INSUFFICIENT_STORAGE
         \<and> statusCode \<ge> fst HTTP_STATUS_CODE_SERVER_ERROR_BLOCK_RANGE
         \<and> statusCode \<le> snd HTTP_STATUS_CODE_SERVER_ERROR_BLOCK_RANGE
      then True
      else if map_of retryableStatusCodes statusCode = Some True then True
      else False)"

definition isRequestRetryable :: "request_options \<Rightarrow> bool" where
  "isRequestRetryable options = (opt_formData options = None)"

text \<open>Assignment to a property of a dictionary: the entry is replaced where it is.\<close>

fun assign :: "string \<Rightarrow> jsval \<Rightarrow> dict \<Rightarrow> dict" where
  "assign k v [] = [(k, v)]"
| "assign k v ((k', v') # kvs) =
     (if k' = k then (k, v) # kvs else (k', v') # assign k v kvs)"

definition isSet :: "dict \<Rightarrow> string \<Rightarrow> bool" where
  "isSet h k = (case map_of h k of None \<Rightarrow> False | Some v \<Rightarrow> truthy v)"

definition cleanSensitiveHeaders :: "axios_request \<Rightarrow> axios_request" where
  "cleanSensitiveHeaders requestObj =
     (case req_headers requestObj of
        None \<Rightarrow> requestObj
      | Some h \<Rightarrow>
          (let h1 = (if isSet h ''BoxApi''
                     then assign ''BoxApi'' (JStr REMOVED_HEADER_MESSAGE) h else h);
               h2 = (if isSet h1 ''Authorization''
                     then assign ''Authorization'' (JStr REMOVED_HEADER_MESSAGE) h1 else h1)
           in requestObj\<lparr>req_headers := Some h2\<rparr>))"

subsection \<open>The class APIRequest\<close>

definition APIRequest :: "config \<Rightarrow> api_state" where
  "APIRequest cfg =
     \<lparr>this_config = cfg,
      this_isRetryable = isRequestRetryable (cfg_request cfg),
      this_callback = None, this_request = None, this_response = None,
      this_numRetries = None,
      nextTickQueue = [], timers = [], sent = [], emitted = [], delivered = [],
      thrown = []\<rparr>"

text \<open>\<open>setTimeout(this.execute.bind(this), retryTimeout)\<close>.\<close>

definition setTimeout :: "real option \<Rightarrow> api_state \<Rightarrow> api_state" where
  "setTimeout retryTimeout s = s\<lparr>timers := timers s @ [retryTimeout]\<rparr>"

text \<open>
  \<open>_finish\<close> reads the callback and defers the call with \<open>process.nextTick\<close>; the
  deferred function is \<open>nextTickTask\<close>, run by the event loop below.
\<close>

definition finish :: "api_error option \<Rightarrow> api_response option \<Rightarrow> api_state \<Rightarrow> api_state" where
  "finish err response s =
     s\<lparr>nextTickQueue := nextTickQueue s @ [(this_callback s, err, response)]\<rparr>"

definition nextTickTask :: "callback option \<times> outcome \<Rightarrow> api_state \<Rightarrow> api_state" where
  "nextTickTask task s =
     (case task of (cb, err, response) \<Rightarrow>
        (case cb of
           None \<Rightarrow> s\<lparr>thrown := thrown s @ [''TypeError: callback is not a function'']\<rparr>
         | Some c \<Rightarrow>
             (case err of
                Some e \<Rightarrow> s\<lparr>delivered := delivered s @ [(c, Some e, None)]\<rparr>
              | None \<Rightarrow> s\<lparr>delivered := delivered s @ [(c, None, response)]\<rparr>)))"

definition totalElapsedTimeMS :: "int \<times> int \<Rightarrow> real" where
  "totalElapsedTimeMS totalElapsedTime =
     real_of_int (fst totalElapsedTime) * 1000 + real_of_int (snd totalElapsedTime) / 1000000"

text \<open>\<open>this.numRetries || 0\<close>: the number of retries made so far.\<close>

definition retries :: "api_state \<Rightarrow> int" where
  "retries s = (case this_numRetries s of None \<Rightarrow> 0 | Some k \<Rightarrow> k)"

text \<open>The object \<open>retryOptions\<close> handed to a custom strategy.\<close>

definition retryOptions :: "environment \<Rightarrow> api_error \<Rightarrow> api_state \<Rightarrow> retry_options" where
  "retryOptions env err s =
     \<lparr>ro_error = err,
      ro_numRetryAttempts = retries s,
      ro_numMaxRetries = numMaxRetries (this_config s),
      ro_retryIntervalMS = retryIntervalMS (this_config s),
      ro_totalElapsedTimeMS = totalElapsedTimeMS (hrtime env (length (sent s)))\<rparr>"

definition retry :: "environment \<Rightarrow> api_error \<Rightarrow> api_state \<Rightarrow> api_state" where
  "retry env err s =
     (let s0 = s\<lparr>this_numRetries := Some (retries s)\<rparr> in
      if retries s0 < numMaxRetries (this_config s0) then
        (let s1 = s0\<lparr>this_numRetries := Some (retries s0 + 1)\<rparr> in
         case retryStrategy (this_config s1) of
           Some strategy \<Rightarrow>
             (case strategy (retryOptions env err s1) of
                Number retryTimeout \<Rightarrow> setTimeout retryTimeout s1
              | ErrorValue e \<Rightarrow> finish (Some e) None s1
              | OtherValue \<Rightarrow> finish (Some err) None s1)
         | None \<Rightarrow>
             (case err_response err of
                Some r \<Rightarrow>
                  (case map_of (resp_headers r) ''retry-after'' of
                     Some v \<Rightarrow>
                       setTimeout (map_option (\<lambda>x. x * 1000) (toNumber env v)) s1
                   | None \<Rightarrow>
                       setTimeout
                         (Some (getRetryTimeout env (retries s1)
                                  (retryIntervalMS (this_config s1)))) s1)
              | None \<Rightarrow>
                  setTimeout
                    (Some (getRetryTimeout env (retries s1)
                             (retryIntervalMS (this_config s1)))) s1))
      else finish (Some (err\<lparr>err_maxRetriesExceeded := Some True\<rparr>)) None s0)"

definition isJWT :: "request_options \<Rightarrow> bool" where
  "isJWT options =
     (case opt_form options of
        None \<Rightarrow> False
      | Some form \<Rightarrow>
          (case map_of form ''grant_type'' of
             None \<Rightarrow> False
           | Some v \<Rightarrow> v = JStr ''urn:ietf:params:oauth:grant-type:jwt-bearer''))"

text \<open>
  \<open>_handleResponse\<close>. Its first statement, the call of \<open>cleanSensitiveHeaders\<close> on
  \<open>this.request\<close>, is commented out in the source, so the model does not make it.
  With neither an error nor a response, reading \<open>response.status\<close> throws.
\<close>

definition handleResponse ::
  "environment \<Rightarrow> api_error option \<Rightarrow> api_response option \<Rightarrow> api_state \<Rightarrow> api_state" where
  "handleResponse env err response s =
     (case (err, response) of
        (None, None) \<Rightarrow>
          s\<lparr>thrown := thrown s @ [''TypeError: cannot read properties of null'']\<rparr>
      | _ \<Rightarrow>
        (let err1 =
               (case err of
                  Some e \<Rightarrow> Some e
                | None \<Rightarrow>
                    (case response of
                       None \<Rightarrow> None
                     | Some r \<Rightarrow>
                         if isTemporaryError r
                         then Some (Error (numberToString env (resp_status r) @ '' - '' @
                                           httpStatusCodes env (resp_status r)))
                         else None))
         in case err1 of
              Some e \<Rightarrow>
                (let e1 = e\<lparr>err_request := this_request s\<rparr>;
                     e2 = (case response of
                             Some r \<Rightarrow> e1\<lparr>err_response := Some r,
                                          err_status := Some (resp_status r)\<rparr>
                           | None \<Rightarrow> e1);
                     s1 = s\<lparr>emitted := emitted s @ [(Some e2, None)]\<rparr>
                 in if this_isRetryable s \<and> \<not> isJWT (cfg_request (this_config s))
                    then retry env e2 s1
                    else finish (Some e2) None s1)
            | None \<Rightarrow>
                finish None response (s\<lparr>emitted := emitted s @ [(None, response)]\<rparr>)))"

text \<open>
  \<open>execute\<close>. With a callback the outcome of the transport goes to \<open>handleResponse\<close>;
  without one (stream mode) it is only emitted on the event bus.
\<close>

definition buildRequest :: "environment \<Rightarrow> request_options \<Rightarrow> string option \<Rightarrow> axios_request" where
  "buildRequest env options rt =
     \<lparr>req_url = (case opt_qs options of
                   Some q \<Rightarrow> opt_url options @ ''?'' @ stringify env (Some q)
                 | None \<Rightarrow> opt_url options),
      req_method = opt_method options,
      req_headers = opt_headers options,
      req_data = (case opt_body options of
                    Some b \<Rightarrow> b
                  | None \<Rightarrow> stringify env (opt_form options)),
      req_maxRedirects = 0,
      req_responseType = rt\<rparr>"

definition execute :: "environment \<Rightarrow> callback option \<Rightarrow> api_state \<Rightarrow> api_state" where
  "execute env cb s =
     (let s1 = s\<lparr>this_callback := (case cb of Some c \<Rightarrow> Some c | None \<Rightarrow> this_callback s)\<rparr>;
          options = cfg_request (this_config s1)
      in case this_callback s1 of
           Some c \<Rightarrow>
             (let req = buildRequest env options None;
                  s2 = s1\<lparr>this_request := Some req, sent := sent s1 @ [req]\<rparr>
              in case axios env (length (sent s1)) req of
                   Inr r \<Rightarrow> handleResponse env None (Some r) (s2\<lparr>this_response := Some r\<rparr>)
                 | Inl error \<Rightarrow> handleResponse env (Some error) None s2)
         | None \<Rightarrow>
             (let req = buildRequest env options (Some ''stream'');
                  s2 = s1\<lparr>this_request := Some req, sent := sent s1 @ [req]\<rparr>
              in case axios env (length (sent s1)) req of
                   Inr r \<Rightarrow> s2\<lparr>this_response := Some r,
                               emitted := emitted s2 @ [(None, Some r)]\<rparr>
                 | Inl error \<Rightarrow> s2\<lparr>emitted := emitted s2 @ [(Some error, None)]\<rparr>))"

subsection \<open>The event loop\<close>

text \<open>
  The platform runs the deferred work: a task of the \<open>nextTick\<close> queue first, a
  timer when that queue is empty. A timer calls \<open>execute\<close> without arguments.
\<close>

definition processTick :: "api_state \<Rightarrow> api_state" where
  "processTick s =
     (case nextTickQueue s of
        [] \<Rightarrow> s
      | task # rest \<Rightarrow> nextTickTask task (s\<lparr>nextTickQueue := rest\<rparr>))"

definition fireTimer :: "environment \<Rightarrow> api_state \<Rightarrow> api_state" where
  "fireTimer env s =
     (case timers s of
        [] \<Rightarrow> s
      | t # rest \<Rightarrow> execute env None (s\<lparr>timers := rest\<rparr>))"

function eventLoop :: "environment \<Rightarrow> api_state \<Rightarrow> api_state" where
  "eventLoop env s =
     (if nextTickQueue s \<noteq> [] then eventLoop env (processTick s)
      else if timers s \<noteq> [] then eventLoop env (fireTimer env s)
      else s)"
  by pat_completeness auto

text \<open>
  One logical operation in callback mode: the instance is constructed, \<open>execute\<close> is
  called once with the callback, and the event loop runs until nothing is pending.
\<close>

definition operation :: "environment \<Rightarrow> config \<Rightarrow> callback \<Rightarrow> api_state" where
  "operation env cfg cb = eventLoop env (execute env (Some cb) (APIRequest cfg))"

text \<open>
  The states an instance can reach: from the constructor by calls of \<open>execute\<close> and
  steps of the event loop, in any order.
\<close>

datatype action = Execute "callback option" | Tick | Timer

fun perform :: "environment \<Rightarrow> api_state \<Rightarrow> action \<Rightarrow> api_state" where
  "perform env s (Execute cb) = execute env cb s"
| "perform env s Tick = processTick s"
| "perform env s Timer = fireTimer env s"

definition performAll :: "environment \<Rightarrow> config \<Rightarrow> action list \<Rightarrow> api_state" where
  "performAll env cfg acts = foldl (perform env) (APIRequest cfg) acts"

section \<open>Notions used in the statements and proofs\<close>

text \<open>
  The error an attempt ends with, if it fails: a rejection of the transport with the
  request attached, or the error that \<open>_handleResponse\<close> builds for a temporary
  response, with the request, the response and its status attached.
\<close>

fun attemptFailure :: "environment \<Rightarrow> axios_request \<Rightarrow> api_error + api_response \<Rightarrow> api_error option" where
  "attemptFailure env req (Inl e) = Some (e\<lparr>err_request := Some req\<rparr>)"
| "attemptFailure env req (Inr r) =
     (if isTemporaryError r
      then Some ((Error (numberToString env (resp_status r) @ '' - '' @
                         httpStatusCodes env (resp_status r)))
                   \<lparr>err_request := Some req, err_response := Some r,
                    err_status := Some (resp_status r)\<rparr>)
      else None)"

text \<open>A request is retried only if it is retryable and is not a JWT grant.\<close>

definition retryable :: "config \<Rightarrow> bool" where
  "retryable cfg = (isRequestRetryable (cfg_request cfg) \<and> \<not> isJWT (cfg_request cfg))"

text \<open>The state after the transport has answered an attempt in callback mode.\<close>

definition attempted :: "environment \<Rightarrow> callback \<Rightarrow> api_state \<Rightarrow> api_state" where
  "attempted env c s =
     (let req = buildRequest env (cfg_request (this_config s)) None;
          out = axios env (length (sent s)) req;
          s2 = s\<lparr>this_callback := Some c, this_request := Some req, sent := sent s @ [req]\<rparr>;
          s3 = (case out of Inr r \<Rightarrow> s2\<lparr>this_response := Some r\<rparr> | Inl e \<Rightarrow> s2)
      in case attemptFailure env req out of
           Some e \<Rightarrow> s3\<lparr>emitted := emitted s @ [(Some e, None)]\<rparr>
         | None \<Rightarrow> s3\<lparr>emitted := emitted s @ [(None, case out of Inr r \<Rightarrow> Some r | Inl e \<Rightarrow> None)]\<rparr>)"

text \<open>
  Every step of the event loop lowers this weight: a timer is worth three ticks, and so
  is every retry still allowed.
\<close>

definition weight :: "api_state \<Rightarrow> nat" where
  "weight s = 3 * length (timers s) + 3 * nat (numMaxRetries (this_config s) - retries s)
              + length (nextTickQueue s)"

text \<open>
  The outcome an operation may end with after \<open>n\<close> attempts: the response of the
  last attempt, or its error, marked once the retries are used up, or what a custom
  strategy decided.
\<close>

definition verdict :: "environment \<Rightarrow> config \<Rightarrow> nat \<Rightarrow> outcome \<Rightarrow> bool" where
  "verdict env cfg n out =
     (let req = buildRequest env (cfg_request cfg) None in
      case attemptFailure env req (axios env (n - 1) req) of
        None \<Rightarrow> (\<exists>r. axios env (n - 1) req = Inr r \<and> out = (None, Some r))
      | Some e \<Rightarrow>
          (\<not> retryable cfg \<and> out = (Some e, None))
        \<or> (retryable cfg \<and> n = nat (numMaxRetries cfg) + 1
             \<and> out = (Some (e\<lparr>err_maxRetriesExceeded := Some True\<rparr>), None))
        \<or> (retryable cfg \<and> int n \<le> numMaxRetries cfg
             \<and> (\<exists>strategy opts. retryStrategy cfg = Some strategy
                  \<and> ((\<exists>e'. strategy opts = ErrorValue e' \<and> out = (Some e', None))
                     \<or> (strategy opts = OtherValue \<and> out = (Some e, None))))))"

text \<open>
  During an operation exactly one thing is pending or done: a timer, a deferred call of
  the callback, or the call itself.
\<close>

definition pending :: "environment \<Rightarrow> config \<Rightarrow> callback \<Rightarrow> api_state \<Rightarrow> bool" where
  "pending env cfg cb s =
     ((\<exists>t. timers s = [t] \<and> nextTickQueue s = [] \<and> delivered s = []
           \<and> this_numRetries s = Some (int (length (sent s)))
           \<and> int (length (sent s)) \<le> numMaxRetries cfg)
      \<or> (\<exists>out. timers s = [] \<and> nextTickQueue s = [(Some cb, out)] \<and> delivered s = []
              \<and> verdict env cfg (length (sent s)) out)
      \<or> (\<exists>out. timers s = [] \<and> nextTickQueue s = [] \<and> delivered s = [(cb, out)]
              \<and> verdict env cfg (length (sent s)) out))"

definition inv :: "environment \<Rightarrow> config \<Rightarrow> callback \<Rightarrow> api_state \<Rightarrow> bool" where
  "inv env cfg cb s =
     (this_config s = cfg \<and> this_callback s = Some cb
      \<and> this_isRetryable s = isRequestRetryable (cfg_request cfg)
      \<and> thrown s = []
      \<and> (\<exists>k. sent s = replicate (Suc k) (buildRequest env (cfg_request cfg) None))
      \<and> pending env cfg cb s)"

text \<open>A call leaves the retry count alone or raises it by one, below the maximum.\<close>

definition counted :: "api_state \<Rightarrow> api_state \<Rightarrow> bool" where
  "counted s s' =
     (this_config s' = this_config s \<and> delivered s' = delivered s
      \<and> (retries s' = retries s
         \<or> (retries s < numMaxRetries (this_config s) \<and> retries s' = retries s + 1)))"

text \<open>
  The course of an operation in callback mode, as a function of the configuration and
  of the answers of the transport alone. After the \<open>n\<close>-th attempt the engine
  either delivers an outcome or tries again: a response that is not temporary is
  delivered; a failure is delivered as it is when the request is not retried, marked
  when no retry is left, and otherwise the custom strategy, called with the options
  that \<open>_retry\<close> builds at that point, decides: a number means another attempt, its
  own error is delivered in place of the failure, anything else delivers the failure.
  Without a strategy there is another attempt.
\<close>

datatype decision = Deliver outcome | Again

definition strategyOptions :: "environment \<Rightarrow> config \<Rightarrow> api_error \<Rightarrow> nat \<Rightarrow> retry_options" where
  "strategyOptions env cfg e n =
     \<lparr>ro_error = e,
      ro_numRetryAttempts = int n,
      ro_numMaxRetries = numMaxRetries cfg,
      ro_retryIntervalMS = retryIntervalMS cfg,
      ro_totalElapsedTimeMS = totalElapsedTimeMS (hrtime env n)\<rparr>"

definition decide :: "environment \<Rightarrow> config \<Rightarrow> nat \<Rightarrow> decision" where
  "decide env cfg n =
     (let req = buildRequest env (cfg_request cfg) None;
          out = axios env (n - 1) req
      in case attemptFailure env req out of
           None \<Rightarrow> Deliver (None, case out of Inr r \<Rightarrow> Some r | Inl e0 \<Rightarrow> None)
         | Some e \<Rightarrow>
             if retryable cfg
             then (if int n - 1 < numMaxRetries cfg
                   then (case retryStrategy cfg of
                           None \<Rightarrow> Again
                         | Some strategy \<Rightarrow>
                             (case strategy (strategyOptions env cfg e n) of
                                Number t \<Rightarrow> Again
                              | ErrorValue e' \<Rightarrow> Deliver (Some e', None)
                              | OtherValue \<Rightarrow> Deliver (Some e, None)))
                   else Deliver (Some (e\<lparr>err_maxRetriesExceeded := Some True\<rparr>), None))
             else Deliver (Some e, None))"

text \<open>
  The number of the first attempt that is not followed by another one, and the outcome
  delivered after it.
\<close>

function resolve :: "environment \<Rightarrow> config \<Rightarrow> nat \<Rightarrow> nat \<times> outcome" where
  "resolve env cfg n =
     (case decide env cfg n of
        Deliver out \<Rightarrow> (n, out)
      | Again \<Rightarrow> resolve env cfg (Suc n))"
  by pat_completeness auto

text \<open>During an operation the state agrees with that course.\<close>

definition tracked :: "environment \<Rightarrow> config \<Rightarrow> callback \<Rightarrow> api_state \<Rightarrow> bool" where
  "tracked env cfg cb s =
     ((timers s \<noteq> [] \<and> resolve env cfg 1 = resolve env cfg (Suc (length (sent s))))
      \<or> (timers s = [] \<and> nextTickQueue s = [(Some cb, snd (resolve env cfg 1))]
          \<and> fst (resolve env cfg 1) = length (sent s))
      \<or> (timers s = [] \<and> nextTickQueue s = []
          \<and> delivered s = [(cb, snd (resolve env cfg 1))]
          \<and> fst (resolve env cfg 1) = length (sent s)))"

subsection \<open>Example values\<close>

text \<open>
  A request with an authorization header, servers that always answer with one status or
  always refuse the connection, and two custom strategies.
\<close>

definition exampleOptions :: request_options where
  "exampleOptions =
     \<lparr>opt_url = ''https://api.box.com/2.0/files/123'', opt_method = ''GET'',
      opt_headers = Some [(''Authorization'', JStr ''Bearer secret'')],
      opt_qs = None, opt_body = None, opt_form = None, opt_formData = None\<rparr>"

definition exampleRequest :: axios_request where
  "exampleRequest =
     \<lparr>req_url = ''https://api.box.com/2.0/files/123'', req_method = ''GET'',
      req_headers = Some [(''Authorization'', JStr ''Bearer secret'')],
      req_data = [], req_maxRedirects = 0, req_responseType = None\<rparr>"

definition uploadOptions :: request_options where
  "uploadOptions = exampleOptions\<lparr>opt_formData := Some [(''file'', JStr ''contents'')]\<rparr>"

definition jwtOptions :: request_options where
  "jwtOptions =
     exampleOptions\<lparr>opt_form :=
       Some [(''grant_type'', JStr ''urn:ietf:params:oauth:grant-type:jwt-bearer'')]\<rparr>"

definition exampleConfig ::
  "request_options \<Rightarrow> int \<Rightarrow> (retry_options \<Rightarrow> strategy_result) option \<Rightarrow> config" where
  "exampleConfig options n strategy =
     \<lparr>cfg_request = options, numMaxRetries = n, retryIntervalMS = 2000,
      retryStrategy = strategy\<rparr>"

definition answering :: "int \<Rightarrow> (string \<times> string) list \<Rightarrow> axios_request \<Rightarrow> api_error + api_response" where
  "answering code hs req =
     Inr \<lparr>resp_request = req, resp_status = code, resp_headers = hs, resp_data = None\<rparr>"

definition refusing :: "axios_request \<Rightarrow> api_error + api_response" where
  "refusing req = Inl (Error ''connect ECONNREFUSED'')"

definition exampleEnv :: "(axios_request \<Rightarrow> api_error + api_response) \<Rightarrow> environment" where
  "exampleEnv server =
     \<lparr>axios = (\<lambda>i. server), hrtime = (\<lambda>i. (int i, 0)),
      getRetryTimeout = (\<lambda>n interval. real_of_int n * interval + 250),
      stringify = (\<lambda>d. []),
      httpStatusCodes = (\<lambda>c. if c = 429 then ''Too Many Requests'' else ''Service Unavailable''),
      numberToString = (\<lambda>c. if c = 429 then ''429'' else ''503''),
      toNumber = (\<lambda>v. if v = ''2'' then Some 2 else None)\<rparr>"

definition exampleError :: "int \<Rightarrow> (string \<times> string) list \<Rightarrow> api_error" where
  "exampleError code hs =
     \<lparr>err_message = (if code = 429 then ''429 - Too Many Requests''
                      else ''503 - Service Unavailable''),
      err_request = Some exampleRequest,
      err_response = Some \<lparr>resp_request = exampleRequest, resp_status = code,
                            resp_headers = hs, resp_data = None\<rparr>,
      err_status = Some code, err_maxRetriesExceeded = None\<rparr>"

definition exampleStrategy :: "retry_options \<Rightarrow> strategy_result" where
  "exampleStrategy opts =
     (if ro_numRetryAttempts opts < 2 then Number (Some 100)
      else ErrorValue (Error ''giving up''))"

definition substitutingStrategy :: "retry_options \<Rightarrow> strategy_result" where
  "substitutingStrategy opts = ErrorValue (Error ''custom'')"

definition exampleState :: "config \<Rightarrow> int option \<Rightarrow> api_state" where
  "exampleState cfg n = (APIRequest cfg)\<lparr>this_callback := Some 7, this_numRetries := n\<rparr>"

text \<open>A server that answers 503 twice and 200 from then on.\<close>

definition recovering :: "nat \<Rightarrow> axios_request \<Rightarrow> api_error + api_response" where
  "recovering i = (if i < 2 then answering 503 [] else answering 200 [])"

definition recoveringEnv :: environment where
  "recoveringEnv = (exampleEnv refusing)\<lparr>axios := recovering\<rparr>"

lemmas example_defs = exampleStrategy_def substitutingStrategy_def uploadOptions_def
  jwtOptions_def exampleState_def exampleOptions_def exampleRequest_def exampleConfig_def
  answering_def refusing_def exampleEnv_def exampleError_def Error_def buildRequest_def

lemmas engine_defs = operation_def APIRequest_def execute_def handleResponse_def retry_def
  finish_def setTimeout_def retries_def retryOptions_def isJWT_def isRequestRetryable_def
  processTick_def fireTimer_def nextTickTask_def Let_def isTemporaryError_def
  retryableStatusCodes_def REQUEST_TIMEOUT_def TOO_MANY_REQUESTS_def INSUFFICIENT_STORAGE_def
  HTTP_STATUS_CODE_SERVER_ERROR_BLOCK_RANGE_def

section \<open>Termination of the event loop\<close>

lemma weight_updates [simp]:
  "weight (s\<lparr>emitted := em\<rparr>) = weight s"
  "weight (s\<lparr>sent := se\<rparr>) = weight s"
  "weight (s\<lparr>thrown := th\<rparr>) = weight s"
  "weight (s\<lparr>delivered := de\<rparr>) = weight s"
  "weight (s\<lparr>this_callback := c\<rparr>) = weight s"
  "weight (s\<lparr>this_request := rq\<rparr>) = weight s"
  "weight (s\<lparr>this_response := rs\<rparr>) = weight s"
  by (simp_all add: weight_def retries_def)

lemma weight_finish: "weight (finish e r s) = weight s + 1"
  by (simp add: weight_def finish_def retries_def)

lemma weight_setTimeout: "weight (setTimeout t s) = weight s + 3"
  by (simp add: weight_def setTimeout_def retries_def)

lemma weight_retry: "weight (retry env err s) \<le> weight s + 1"
  unfolding retry_def Let_def
  by (auto simp: weight_finish weight_setTimeout split: option.splits strategy_result.splits)
     (auto simp: weight_def retries_def)

lemma weight_handleResponse: "weight (handleResponse env err r s) \<le> weight s + 1"
  unfolding handleResponse_def Let_def
  by (auto simp: weight_finish split: option.splits intro!: order_trans [OF weight_retry])

lemma weight_execute: "weight (execute env cb s) \<le> weight s + 1"
  unfolding execute_def Let_def
  by (auto split: option.splits sum.splits intro!: order_trans [OF weight_handleResponse])

lemma weight_processTick: "nextTickQueue s \<noteq> [] \<Longrightarrow> weight (processTick s) < weight s"
  by (cases "nextTickQueue s")
     (auto simp: processTick_def nextTickTask_def weight_def retries_def split: option.splits)

lemma weight_fireTimer: "timers s \<noteq> [] \<Longrightarrow> weight (fireTimer env s) < weight s"
proof (cases "timers s")
  case Nil
  then show "timers s \<noteq> [] \<Longrightarrow> ?thesis" by simp
next
  case (Cons t rest)
  have "weight (s\<lparr>timers := rest\<rparr>) + 3 = weight s"
    using Cons by (simp add: weight_def retries_def)
  moreover have "weight (execute env None (s\<lparr>timers := rest\<rparr>)) \<le> weight (s\<lparr>timers := rest\<rparr>) + 1"
    by (rule weight_execute)
  ultimately show ?thesis using Cons by (simp add: fireTimer_def)
qed

termination eventLoop
  by (relation "measure (\<lambda>(env, s). weight s)")
     (auto simp: weight_processTick weight_fireTimer)

declare eventLoop.simps [simp del]

section \<open>The error classifier\<close>

text \<open>
  C2. \<open>isTemporaryError\<close> answers true exactly for a status code from 500 to 599
  other than 507, for 408 and for 429; for 507 and for every other code it answers false.
\<close>

theorem C2_isTemporaryError_exact:
  "isTemporaryError response =
     ((500 \<le> resp_status response \<and> resp_status response \<le> 599
         \<and> resp_status response \<noteq> 507)
      \<or> resp_status response = 408 \<or> resp_status response = 429)"
  by (auto simp: isTemporaryError_def Let_def retryableStatusCodes_def REQUEST_TIMEOUT_def
        TOO_MANY_REQUESTS_def INSUFFICIENT_STORAGE_def
        HTTP_STATUS_CODE_SERVER_ERROR_BLOCK_RANGE_def)

section \<open>One call of the engine\<close>

lemma retries_simps [simp]:
  "retries (s\<lparr>this_numRetries := Some k\<rparr>) = k"
  "retries (s\<lparr>emitted := em\<rparr>) = retries s"
  "retries (s\<lparr>sent := se\<rparr>) = retries s"
  "retries (s\<lparr>timers := ti\<rparr>) = retries s"
  "retries (s\<lparr>nextTickQueue := q\<rparr>) = retries s"
  "retries (s\<lparr>delivered := de\<rparr>) = retries s"
  "retries (s\<lparr>thrown := th\<rparr>) = retries s"
  "retries (s\<lparr>this_callback := c\<rparr>) = retries s"
  "retries (s\<lparr>this_request := rq\<rparr>) = retries s"
  "retries (s\<lparr>this_response := rs\<rparr>) = retries s"
  by (simp_all add: retries_def)

lemma finish_fields [simp]:
  "this_config (finish e r s) = this_config s"
  "this_isRetryable (finish e r s) = this_isRetryable s"
  "this_callback (finish e r s) = this_callback s"
  "this_numRetries (finish e r s) = this_numRetries s"
  "nextTickQueue (finish e r s) = nextTickQueue s @ [(this_callback s, e, r)]"
  "timers (finish e r s) = timers s"
  "sent (finish e r s) = sent s"
  "delivered (finish e r s) = delivered s"
  "thrown (finish e r s) = thrown s"
  by (simp_all add: finish_def)

lemma setTimeout_fields [simp]:
  "this_config (setTimeout t s) = this_config s"
  "this_isRetryable (setTimeout t s) = this_isRetryable s"
  "this_callback (setTimeout t s) = this_callback s"
  "this_numRetries (setTimeout t s) = this_numRetries s"
  "nextTickQueue (setTimeout t s) = nextTickQueue s"
  "timers (setTimeout t s) = timers s @ [t]"
  "sent (setTimeout t s) = sent s"
  "delivered (setTimeout t s) = delivered s"
  "thrown (setTimeout t s) = thrown s"
  by (simp_all add: setTimeout_def)

lemma APIRequest_fields [simp]:
  "this_config (APIRequest cfg) = cfg"
  "this_isRetryable (APIRequest cfg) = isRequestRetryable (cfg_request cfg)"
  "this_callback (APIRequest cfg) = None"
  "this_numRetries (APIRequest cfg) = None"
  "nextTickQueue (APIRequest cfg) = []"
  "timers (APIRequest cfg) = []"
  "sent (APIRequest cfg) = []"
  "delivered (APIRequest cfg) = []"
  "thrown (APIRequest cfg) = []"
  by (simp_all add: APIRequest_def)

lemma retry_exhausted:
  "\<not> retries s < numMaxRetries (this_config s) \<Longrightarrow>
   retry env err s =
     finish (Some (err\<lparr>err_maxRetriesExceeded := Some True\<rparr>)) None
       (s\<lparr>this_numRetries := Some (retries s)\<rparr>)"
  by (simp add: retry_def Let_def)

lemma retry_strategy:
  "retries s < numMaxRetries (this_config s) \<Longrightarrow>
   retryStrategy (this_config s) = Some strategy \<Longrightarrow>
   retry env err s =
     (let s1 = s\<lparr>this_numRetries := Some (retries s + 1)\<rparr> in
      case strategy (retryOptions env err s1) of
        Number retryTimeout \<Rightarrow> setTimeout retryTimeout s1
      | ErrorValue e \<Rightarrow> finish (Some e) None s1
      | OtherValue \<Rightarrow> finish (Some err) None s1)"
  by (simp add: retry_def Let_def)

lemma retry_frame:
  "this_config (retry env err s) = this_config s"
  "this_isRetryable (retry env err s) = this_isRetryable s"
  "this_callback (retry env err s) = this_callback s"
  "sent (retry env err s) = sent s"
  "delivered (retry env err s) = delivered s"
  "thrown (retry env err s) = thrown s"
  by (simp_all add: retry_def Let_def split: option.splits strategy_result.splits)

lemma retry_cases:
  obtains
    (exhausted) "\<not> retries s < numMaxRetries (this_config s)"
      "retry env err s = finish (Some (err\<lparr>err_maxRetriesExceeded := Some True\<rparr>)) None
                           (s\<lparr>this_numRetries := Some (retries s)\<rparr>)"
  | (scheduled) t where "retries s < numMaxRetries (this_config s)"
      "retry env err s = setTimeout t (s\<lparr>this_numRetries := Some (retries s + 1)\<rparr>)"
      "retryStrategy (this_config s) = None \<or>
       (\<exists>strategy opts. retryStrategy (this_config s) = Some strategy \<and> strategy opts = Number t)"
  | (substituted) strategy opts e where "retries s < numMaxRetries (this_config s)"
      "retryStrategy (this_config s) = Some strategy" "strategy opts = ErrorValue e"
      "retry env err s = finish (Some e) None (s\<lparr>this_numRetries := Some (retries s + 1)\<rparr>)"
  | (declined) strategy opts where "retries s < numMaxRetries (this_config s)"
      "retryStrategy (this_config s) = Some strategy" "strategy opts = OtherValue"
      "retry env err s = finish (Some err) None (s\<lparr>this_numRetries := Some (retries s + 1)\<rparr>)"
proof (cases "retries s < numMaxRetries (this_config s)")
  case False
  then show ?thesis using exhausted by (simp add: retry_exhausted)
next
  case below: True
  show ?thesis
  proof (cases "retryStrategy (this_config s)")
    case None
    then have "\<exists>t. retry env err s = setTimeout t (s\<lparr>this_numRetries := Some (retries s + 1)\<rparr>)"
      using below by (auto simp: retry_def Let_def split: option.splits)
    then show ?thesis using below None scheduled by blast
  next
    case (Some strategy)
    let ?opts = "retryOptions env err (s\<lparr>this_numRetries := Some (retries s + 1)\<rparr>)"
    show ?thesis
    proof (cases "strategy ?opts")
      case (Number t)
      then show ?thesis using below Some scheduled [of t]
        by (auto simp: retry_strategy Let_def)
    next
      case (ErrorValue e)
      then show ?thesis using below Some substituted [of strategy ?opts e]
        by (simp add: retry_strategy Let_def)
    next
      case OtherValue
      then show ?thesis using below Some declined [of strategy ?opts]
        by (simp add: retry_strategy Let_def)
    qed
  qed
qed

lemma eventLoop_one_tick:
  "nextTickQueue s = [task] \<Longrightarrow> timers s = [] \<Longrightarrow>
   eventLoop env s = nextTickTask task (s\<lparr>nextTickQueue := []\<rparr>)"
  apply (subst eventLoop.simps)
  apply (simp add: processTick_def)
  apply (subst eventLoop.simps)
  apply (simp add: nextTickTask_def split: option.splits prod.splits)
  done

subsection \<open>The decision of \<open>_retry\<close>\<close>

text \<open>
  C7. A custom strategy is configured and retries remain. If the strategy returns
  something that is not a number, \<open>_retry\<close> sets no timer and sends nothing: it
  finalizes at once, with the strategy's own error if it returned one and with the
  original error otherwise. With nothing else pending, the event loop delivers exactly
  that error to the callback and no further attempt is made.
\<close>

theorem C7_strategy_veto:
  assumes "retryStrategy (this_config s) = Some strategy"
    and "retries s < numMaxRetries (this_config s)"
    and "strategy (retryOptions env err (s\<lparr>this_numRetries := Some (retries s + 1)\<rparr>)) = res"
    and "\<forall>t. res \<noteq> Number t"
  shows "timers (retry env err s) = timers s
       \<and> sent (retry env err s) = sent s
       \<and> nextTickQueue (retry env err s) =
           nextTickQueue s @
             [(this_callback s, Some (case res of ErrorValue e \<Rightarrow> e | _ \<Rightarrow> err), None)]
       \<and> (nextTickQueue s = [] \<and> timers s = [] \<and> this_callback s = Some c \<longrightarrow>
            delivered (eventLoop env (retry env err s)) =
              delivered s @ [(c, Some (case res of ErrorValue e \<Rightarrow> e | _ \<Rightarrow> err), None)]
            \<and> sent (eventLoop env (retry env err s)) = sent s)"
proof -
  let ?s1 = "s\<lparr>this_numRetries := Some (retries s + 1)\<rparr>"
  let ?e = "case res of ErrorValue e \<Rightarrow> e | _ \<Rightarrow> err"
  have r: "retry env err s = finish (Some ?e) None ?s1"
    using assms by (cases res) (simp_all add: retry_strategy Let_def)
  have q: "nextTickQueue (retry env err s) = nextTickQueue s @ [(this_callback s, Some ?e, None)]"
    by (simp add: r finish_def)
  have t: "timers (retry env err s) = timers s" "sent (retry env err s) = sent s"
    by (simp_all add: r finish_def)
  have d: "delivered (eventLoop env (retry env err s)) = delivered s @ [(c, Some ?e, None)]
           \<and> sent (eventLoop env (retry env err s)) = sent s"
    if "nextTickQueue s = []" "timers s = []" "this_callback s = Some c"
  proof -
    have "eventLoop env (retry env err s) =
            nextTickTask (Some c, Some ?e, None) (retry env err s\<lparr>nextTickQueue := []\<rparr>)"
      using that q t by (intro eventLoop_one_tick) simp_all
    then show ?thesis by (simp add: nextTickTask_def r finish_def)
  qed
  show ?thesis using q t d by blast
qed

text \<open>
  An instance of C7: at the second retry \<open>exampleStrategy\<close> returns its own error,
  and that error is delivered.
\<close>

theorem C7_witness:
  "retryStrategy (this_config (exampleState (exampleConfig exampleOptions 5 (Some exampleStrategy))
                                 (Some 1))) = Some exampleStrategy
   \<and> retries (exampleState (exampleConfig exampleOptions 5 (Some exampleStrategy)) (Some 1))
       < numMaxRetries (this_config
           (exampleState (exampleConfig exampleOptions 5 (Some exampleStrategy)) (Some 1)))
   \<and> timers (retry (exampleEnv (answering 503 [])) (exampleError 503 [])
               (exampleState (exampleConfig exampleOptions 5 (Some exampleStrategy)) (Some 1))) = []
   \<and> delivered (eventLoop (exampleEnv (answering 503 []))
        (retry (exampleEnv (answering 503 [])) (exampleError 503 [])
           (exampleState (exampleConfig exampleOptions 5 (Some exampleStrategy)) (Some 1))))
       = [(7, Some (Error ''giving up''), None)]"
proof -
  let ?C = "exampleConfig exampleOptions 5 (Some exampleStrategy)"
  let ?s = "exampleState ?C (Some 1)"
  let ?E = "exampleEnv (answering 503 [])"
  have h1: "retryStrategy (this_config ?s) = Some exampleStrategy"
    by (simp add: example_defs APIRequest_def)
  have h2: "retries ?s < numMaxRetries (this_config ?s)"
    by (simp add: example_defs APIRequest_def retries_def)
  have h3: "exampleStrategy (retryOptions ?E (exampleError 503 [])
              (?s\<lparr>this_numRetries := Some (retries ?s + 1)\<rparr>)) = ErrorValue (Error ''giving up'')"
    by (simp add: example_defs APIRequest_def retries_def retryOptions_def)
  have h4: "\<forall>t. ErrorValue (Error ''giving up'') \<noteq> Number t"
    by simp
  have i: "nextTickQueue ?s = [] \<and> timers ?s = [] \<and> this_callback ?s = Some 7"
    "delivered ?s = []"
    by (simp_all add: example_defs APIRequest_def)
  show ?thesis
    using C7_strategy_veto [OF h1 h2 h3 h4, of 7] h1 h2 i by simp
qed

text \<open>
  C8. No custom strategy is configured and retries remain. If the error carries a
  response with a \<open>retry-after\<close> header, the timer is set to the numeric value of
  that header times 1000; if the error has no response, or the response has no such
  header, the timer is set to \<open>getRetryTimeout\<close> of the new retry count and the base
  interval. Nothing is finalized and nothing is sent by \<open>_retry\<close> itself.
\<close>

theorem C8_retry_after:
  assumes "retryStrategy (this_config s) = None"
    and "retries s < numMaxRetries (this_config s)"
  shows "(err_response err = Some r \<and> map_of (resp_headers r) ''retry-after'' = Some v \<longrightarrow>
            timers (retry env err s) =
              timers s @ [map_option (\<lambda>x. x * 1000) (toNumber env v)])
       \<and> (err_response err = None
            \<or> (err_response err = Some r \<and> map_of (resp_headers r) ''retry-after'' = None) \<longrightarrow>
            timers (retry env err s) =
              timers s @ [Some (getRetryTimeout env (retries s + 1)
                                  (retryIntervalMS (this_config s)))])
       \<and> nextTickQueue (retry env err s) = nextTickQueue s
       \<and> sent (retry env err s) = sent s"
  using assms
  by (auto simp: retry_def Let_def setTimeout_def split: option.splits)

text \<open>
  Instances of C8: a header of two seconds gives 2000 milliseconds; without the header
  the default backoff of the example environment, 2250 milliseconds, is used.
\<close>

theorem C8_witness:
  "retryStrategy (this_config (exampleState (exampleConfig exampleOptions 5 None) None)) = None
   \<and> retries (exampleState (exampleConfig exampleOptions 5 None) None)
       < numMaxRetries (this_config (exampleState (exampleConfig exampleOptions 5 None) None))
   \<and> timers (retry (exampleEnv (answering 429 [(''retry-after'', ''2'')]))
               (exampleError 429 [(''retry-after'', ''2'')])
               (exampleState (exampleConfig exampleOptions 5 None) None)) = [Some 2000]
   \<and> timers (retry (exampleEnv (answering 503 [])) (exampleError 503 [])
               (exampleState (exampleConfig exampleOptions 5 None) None)) = [Some 2250]"
proof -
  let ?s = "exampleState (exampleConfig exampleOptions 5 None) None"
  let ?r = "\<lambda>code hs. \<lparr>resp_request = exampleRequest, resp_status = code,
                          resp_headers = hs, resp_data = None\<rparr>"
  have h1: "retryStrategy (this_config ?s) = None"
    by (simp add: example_defs APIRequest_def)
  have h2: "retries ?s < numMaxRetries (this_config ?s)"
    by (simp add: example_defs APIRequest_def retries_def)
  show ?thesis
    using h1 h2
      C8_retry_after [OF h1 h2, of "exampleError 429 [(''retry-after'', ''2'')]"
        "?r 429 [(''retry-after'', ''2'')]" "''2''"
        "exampleEnv (answering 429 [(''retry-after'', ''2'')])"]
      C8_retry_after [OF h1 h2, of "exampleError 503 []" "?r 503 []" "''2''"
        "exampleEnv (answering 503 [])"]
    by (simp add: example_defs APIRequest_def retries_def)
qed

subsection \<open>An attempt in callback mode\<close>

lemma execute_callback:
  "(case cb of Some c \<Rightarrow> Some c | None \<Rightarrow> this_callback s) = Some c \<Longrightarrow>
   execute env cb s =
     (let req = buildRequest env (cfg_request (this_config s)) None;
          s2 = s\<lparr>this_callback := Some c, this_request := Some req, sent := sent s @ [req]\<rparr>
      in case axios env (length (sent s)) req of
           Inr r \<Rightarrow> handleResponse env None (Some r) (s2\<lparr>this_response := Some r\<rparr>)
         | Inl error \<Rightarrow> handleResponse env (Some error) None s2)"
  by (simp add: execute_def Let_def)

lemma handleResponse_rejected:
  "this_request s = Some req \<Longrightarrow>
   handleResponse env (Some e) None s =
     (let e2 = e\<lparr>err_request := Some req\<rparr>;
          s1 = s\<lparr>emitted := emitted s @ [(Some e2, None)]\<rparr>
      in if this_isRetryable s \<and> \<not> isJWT (cfg_request (this_config s))
         then retry env e2 s1 else finish (Some e2) None s1)"
  by (simp add: handleResponse_def Let_def)

lemma handleResponse_temporary:
  "this_request s = Some req \<Longrightarrow> isTemporaryError r \<Longrightarrow>
   handleResponse env None (Some r) s =
     (let e2 = (Error (numberToString env (resp_status r) @ '' - '' @
                       httpStatusCodes env (resp_status r)))
                 \<lparr>err_request := Some req, err_response := Some r,
                  err_status := Some (resp_status r)\<rparr>;
          s1 = s\<lparr>emitted := emitted s @ [(Some e2, None)]\<rparr>
      in if this_isRetryable s \<and> \<not> isJWT (cfg_request (this_config s))
         then retry env e2 s1 else finish (Some e2) None s1)"
  by (simp add: handleResponse_def Let_def)

lemma handleResponse_success:
  "\<not> isTemporaryError r \<Longrightarrow>
   handleResponse env None (Some r) s =
     finish None (Some r) (s\<lparr>emitted := emitted s @ [(None, Some r)]\<rparr>)"
  by (simp add: handleResponse_def Let_def)

lemma attempted_fields [simp]:
  "this_config (attempted env c s) = this_config s"
  "this_isRetryable (attempted env c s) = this_isRetryable s"
  "this_callback (attempted env c s) = Some c"
  "this_request (attempted env c s) = Some (buildRequest env (cfg_request (this_config s)) None)"
  "this_numRetries (attempted env c s) = this_numRetries s"
  "nextTickQueue (attempted env c s) = nextTickQueue s"
  "timers (attempted env c s) = timers s"
  "sent (attempted env c s) = sent s @ [buildRequest env (cfg_request (this_config s)) None]"
  "delivered (attempted env c s) = delivered s"
  "thrown (attempted env c s) = thrown s"
  by (simp_all add: attempted_def Let_def split: option.splits sum.splits)

lemma retries_attempted [simp]: "retries (attempted env c s) = retries s"
  by (simp add: retries_def)

lemma execute_failure:
  assumes "(case cb of Some c \<Rightarrow> Some c | None \<Rightarrow> this_callback s) = Some c"
    and "attemptFailure env (buildRequest env (cfg_request (this_config s)) None)
           (axios env (length (sent s)) (buildRequest env (cfg_request (this_config s)) None)) = Some e"
  shows "execute env cb s =
           (if this_isRetryable s \<and> \<not> isJWT (cfg_request (this_config s))
            then retry env e (attempted env c s) else finish (Some e) None (attempted env c s))"
proof (cases "axios env (length (sent s)) (buildRequest env (cfg_request (this_config s)) None)")
  case (Inl e0)
  then show ?thesis using assms
    by (auto simp: execute_callback handleResponse_rejected Let_def attempted_def)
next
  case (Inr r)
  then have "isTemporaryError r" using assms(2) by (auto split: if_splits)
  then show ?thesis using assms Inr
    by (auto simp: execute_callback handleResponse_temporary Let_def attempted_def)
qed

lemma execute_success:
  assumes "(case cb of Some c \<Rightarrow> Some c | None \<Rightarrow> this_callback s) = Some c"
    and "axios env (length (sent s)) (buildRequest env (cfg_request (this_config s)) None) = Inr r"
    and "\<not> isTemporaryError r"
  shows "execute env cb s = finish None (Some r) (attempted env c s)"
  using assms by (simp add: execute_callback handleResponse_success Let_def attempted_def)

section \<open>Requests that are not retried\<close>

lemma not_retried:
  assumes "\<not> (isRequestRetryable (cfg_request cfg) \<and> \<not> isJWT (cfg_request cfg))"
    and "attemptFailure env (buildRequest env (cfg_request cfg) None)
           (axios env 0 (buildRequest env (cfg_request cfg) None)) = Some e"
  shows "execute env (Some cb) (APIRequest cfg) =
           finish (Some e) None (attempted env cb (APIRequest cfg))"
  using assms by (subst execute_failure [where c = cb and e = e]) auto

lemma not_retried_operation:
  assumes "\<not> (isRequestRetryable (cfg_request cfg) \<and> \<not> isJWT (cfg_request cfg))"
    and "attemptFailure env (buildRequest env (cfg_request cfg) None)
           (axios env 0 (buildRequest env (cfg_request cfg) None)) = Some e"
  shows "timers (execute env (Some cb) (APIRequest cfg)) = []
       \<and> nextTickQueue (execute env (Some cb) (APIRequest cfg)) = [(Some cb, Some e, None)]
       \<and> delivered (operation env cfg cb) = [(cb, Some e, None)]
       \<and> sent (operation env cfg cb) = [buildRequest env (cfg_request cfg) None]"
proof -
  let ?s = "execute env (Some cb) (APIRequest cfg)"
  have s: "?s = finish (Some e) None (attempted env cb (APIRequest cfg))"
    using assms by (rule not_retried)
  have q: "nextTickQueue ?s = [(Some cb, Some e, None)]" and t: "timers ?s = []"
    by (simp_all add: s finish_def)
  have "eventLoop env ?s = nextTickTask (Some cb, Some e, None) (?s\<lparr>nextTickQueue := []\<rparr>)"
    using q t by (rule eventLoop_one_tick)
  then show ?thesis using q t
    by (simp add: operation_def nextTickTask_def) (simp add: s finish_def)
qed

text \<open>
  C5. A request with a \<open>formData\<close> body is never retried: if its attempt fails, by
  a rejection of the transport or by a temporary response, \<open>execute\<close> sets no timer
  and queues the error for the callback; the whole operation delivers that error and
  has made one attempt.
\<close>

theorem C5_formData_never_retried:
  assumes "opt_formData (cfg_request cfg) \<noteq> None"
    and "attemptFailure env (buildRequest env (cfg_request cfg) None)
           (axios env 0 (buildRequest env (cfg_request cfg) None)) = Some e"
  shows "timers (execute env (Some cb) (APIRequest cfg)) = []
       \<and> nextTickQueue (execute env (Some cb) (APIRequest cfg)) = [(Some cb, Some e, None)]
       \<and> delivered (operation env cfg cb) = [(cb, Some e, None)]
       \<and> sent (operation env cfg cb) = [buildRequest env (cfg_request cfg) None]"
  using assms by (intro not_retried_operation) (simp_all add: isRequestRetryable_def)

text \<open>
  An instance of C5: an upload answered with 503, with five retries allowed, is
  attempted once.
\<close>

theorem C5_witness:
  "opt_formData (cfg_request (exampleConfig uploadOptions 5 None)) \<noteq> None
   \<and> delivered (operation (exampleEnv (answering 503 [])) (exampleConfig uploadOptions 5 None) 7)
       = [(7, Some (exampleError 503 []), None)]
   \<and> sent (operation (exampleEnv (answering 503 [])) (exampleConfig uploadOptions 5 None) 7)
       = [exampleRequest]"
  using C5_formData_never_retried [of "exampleConfig uploadOptions 5 None"
          "exampleEnv (answering 503 [])" "exampleError 503 []" 7]
  by (simp add: engine_defs example_defs)

text \<open>
  C6. A request whose form has \<open>grant_type\<close> equal to the JWT bearer grant is never
  retried: if its attempt fails, \<open>execute\<close> sets no timer and queues the error for
  the callback; the whole operation delivers that error and has made one attempt.
\<close>

theorem C6_jwt_never_retried:
  assumes "opt_form (cfg_request cfg) = Some form"
    and "map_of form ''grant_type'' = Some (JStr ''urn:ietf:params:oauth:grant-type:jwt-bearer'')"
    and "attemptFailure env (buildRequest env (cfg_request cfg) None)
           (axios env 0 (buildRequest env (cfg_request cfg) None)) = Some e"
  shows "timers (execute env (Some cb) (APIRequest cfg)) = []
       \<and> nextTickQueue (execute env (Some cb) (APIRequest cfg)) = [(Some cb, Some e, None)]
       \<and> delivered (operation env cfg cb) = [(cb, Some e, None)]
       \<and> sent (operation env cfg cb) = [buildRequest env (cfg_request cfg) None]"
  using assms by (intro not_retried_operation) (simp_all add: isJWT_def)

text \<open>
  An instance of C6: a JWT grant answered with 503, with five retries allowed, is
  attempted once.
\<close>

theorem C6_witness:
  "opt_form (cfg_request (exampleConfig jwtOptions 5 None))
     = Some [(''grant_type'', JStr ''urn:ietf:params:oauth:grant-type:jwt-bearer'')]
   \<and> delivered (operation (exampleEnv (answering 503 [])) (exampleConfig jwtOptions 5 None) 7)
       = [(7, Some (exampleError 503 []), None)]
   \<and> sent (operation (exampleEnv (answering 503 [])) (exampleConfig jwtOptions 5 None) 7)
       = [exampleRequest]"
  using C6_jwt_never_retried [of "exampleConfig jwtOptions 5 None"
          "[(''grant_type'', JStr ''urn:ietf:params:oauth:grant-type:jwt-bearer'')]"
          "exampleEnv (answering 503 [])" "exampleError 503 []" 7]
  by (simp add: engine_defs example_defs)

section \<open>The retry count\<close>

lemma counted_updates [simp]:
  "counted s (s'\<lparr>emitted := em\<rparr>) = counted s s'"
  "counted s (s'\<lparr>thrown := th\<rparr>) = counted s s'"
  "counted s (s'\<lparr>sent := se\<rparr>) = counted s s'"
  "counted s (s'\<lparr>this_callback := c\<rparr>) = counted s s'"
  "counted s (s'\<lparr>this_request := rq\<rparr>) = counted s s'"
  "counted s (s'\<lparr>this_response := rs\<rparr>) = counted s s'"
  by (simp_all add: counted_def)

lemma counted_refl [simp]: "counted s s"
  by (simp add: counted_def)

lemma counted_from:
  "counted s0 s' \<Longrightarrow> this_config s0 = this_config s \<Longrightarrow> delivered s0 = delivered s \<Longrightarrow>
   retries s0 = retries s \<Longrightarrow> counted s s'"
  by (simp add: counted_def)

lemma counted_finish: "counted s (finish e r s)"
  by (simp add: counted_def retries_def)

lemma counted_retry: "counted s (retry env err s)"
  by (cases rule: retry_cases [of s env err]) (simp_all add: counted_def retries_def)

lemma counted_handleResponse: "counted s (handleResponse env err r s)"
  unfolding handleResponse_def Let_def
  by (auto split: option.splits
        intro!: counted_from [OF counted_retry] counted_from [OF counted_finish])

lemma counted_execute: "counted s (execute env arg s)"
  unfolding execute_def Let_def
  by (auto split: option.splits sum.splits intro!: counted_from [OF counted_handleResponse])

lemma counted_fireTimer: "counted s (fireTimer env s)"
proof (cases "timers s")
  case Nil
  then show ?thesis by (simp add: fireTimer_def)
next
  case (Cons t rest)
  then show ?thesis
    by (auto simp: fireTimer_def intro!: counted_from [OF counted_execute])
qed

lemma retries_processTick:
  "this_config (processTick s) = this_config s \<and> retries (processTick s) = retries s"
  by (cases "nextTickQueue s")
     (auto simp: processTick_def nextTickTask_def retries_def split: option.splits)

lemma perform_count:
  "this_config (perform env s a) = this_config s
   \<and> (retries (perform env s a) = retries s
      \<or> (retries s < numMaxRetries (this_config s)
          \<and> retries (perform env s a) = retries s + 1))"
proof (cases a)
  case (Execute arg)
  then show ?thesis using counted_execute [of s env arg] by (simp add: counted_def)
next
  case Tick
  then show ?thesis using retries_processTick [of s] by simp
next
  case Timer
  then show ?thesis using counted_fireTimer [of s env] by (simp add: counted_def)
qed

lemma performAll_count:
  "0 \<le> numMaxRetries cfg \<Longrightarrow>
   this_config (performAll env cfg acts) = cfg
   \<and> retries (performAll env cfg acts) \<le> numMaxRetries cfg"
proof (induction acts rule: rev_induct)
  case Nil
  then show ?case by (simp add: performAll_def retries_def)
next
  case (snoc a acts)
  then show ?case
    using perform_count [of env "performAll env cfg acts" a]
    by (auto simp: performAll_def)
qed

text \<open>
  C4, amended. When the configured maximum is not negative, the retry count never
  exceeds it in any state the instance reaches by calls of \<open>execute\<close> and steps of
  the event loop; and in every state, for every maximum, a step either leaves the count
  as it is or raises it by one from a value strictly below the maximum.
\<close>

theorem C4_retry_count_bounded:
  assumes "0 \<le> numMaxRetries cfg"
  shows "retries (performAll env cfg acts) \<le> numMaxRetries cfg
       \<and> (this_numRetries (performAll env cfg acts) = Some k \<longrightarrow> k \<le> numMaxRetries cfg)
       \<and> (retries (perform env s a) = retries s
          \<or> (retries s < numMaxRetries (this_config s)
              \<and> retries (perform env s a) = retries s + 1))"
  using performAll_count [OF assms, of env acts] perform_count [of env s a]
  by (auto simp: retries_def)

text \<open>
  An instance of C4: with two retries allowed, the count is one after the first refused
  attempt.
\<close>

theorem C4_witness:
  "0 \<le> numMaxRetries (exampleConfig exampleOptions 2 None)
   \<and> this_numRetries (performAll (exampleEnv refusing) (exampleConfig exampleOptions 2 None)
                         [Execute (Some 7)]) = Some 1
   \<and> 1 \<le> numMaxRetries (exampleConfig exampleOptions 2 None)"
  using C4_retry_count_bounded [of "exampleConfig exampleOptions 2 None" "exampleEnv refusing"
          "[Execute (Some 7)]" 1 "APIRequest (exampleConfig exampleOptions 2 None)" Tick]
  by (simp add: performAll_def engine_defs example_defs)

text \<open>
  C4 as stated fails for a negative maximum: \<open>_retry\<close> sets the count to 0, which
  exceeds a maximum of -1.
\<close>

theorem C4_counterexample:
  "this_numRetries (performAll (exampleEnv refusing) (exampleConfig exampleOptions (- 1) None)
                      [Execute (Some 7)]) = Some 0
   \<and> numMaxRetries (this_config (performAll (exampleEnv refusing)
                      (exampleConfig exampleOptions (- 1) None) [Execute (Some 7)])) = - 1
   \<and> \<not> retries (performAll (exampleEnv refusing) (exampleConfig exampleOptions (- 1) None)
                   [Execute (Some 7)])
         \<le> numMaxRetries (exampleConfig exampleOptions (- 1) None)"
  by (simp add: performAll_def engine_defs example_defs)

section \<open>The outcome of an operation\<close>

lemma invI:
  "this_config s = cfg \<Longrightarrow> this_callback s = Some cb \<Longrightarrow>
   this_isRetryable s = isRequestRetryable (cfg_request cfg) \<Longrightarrow> thrown s = [] \<Longrightarrow>
   sent s = replicate (Suc k) (buildRequest env (cfg_request cfg) None) \<Longrightarrow>
   pending env cfg cb s \<Longrightarrow> inv env cfg cb s"
  unfolding inv_def by blast

lemma pending_timer:
  "timers s = [t] \<Longrightarrow> nextTickQueue s = [] \<Longrightarrow> delivered s = [] \<Longrightarrow>
   this_numRetries s = Some (int (length (sent s))) \<Longrightarrow>
   int (length (sent s)) \<le> numMaxRetries cfg \<Longrightarrow> pending env cfg cb s"
  unfolding pending_def by blast

lemma pending_tick:
  "timers s = [] \<Longrightarrow> nextTickQueue s = [(Some cb, out)] \<Longrightarrow> delivered s = [] \<Longrightarrow>
   verdict env cfg (length (sent s)) out \<Longrightarrow> pending env cfg cb s"
  unfolding pending_def by blast

lemma pending_done:
  "timers s = [] \<Longrightarrow> nextTickQueue s = [] \<Longrightarrow> delivered s = [(cb, out)] \<Longrightarrow>
   verdict env cfg (length (sent s)) out \<Longrightarrow> pending env cfg cb s"
  unfolding pending_def by blast

lemma verdict_success:
  "axios env n (buildRequest env (cfg_request cfg) None) = Inr r \<Longrightarrow> \<not> isTemporaryError r \<Longrightarrow>
   verdict env cfg (Suc n) (None, Some r)"
  by (simp add: verdict_def Let_def)

lemma verdict_normal: "verdict env cfg n (eo, ro) \<Longrightarrow> eo \<noteq> None \<Longrightarrow> ro = None"
  by (auto simp: verdict_def Let_def split: option.splits)

lemma execute_inv:
  assumes cfg: "this_config s = cfg"
    and cb: "(case arg of Some c \<Rightarrow> Some c | None \<Rightarrow> this_callback s) = Some cb"
    and ir: "this_isRetryable s = isRequestRetryable (cfg_request cfg)"
    and idle: "thrown s = []" "nextTickQueue s = []" "timers s = []" "delivered s = []"
    and snt: "sent s = replicate k (buildRequest env (cfg_request cfg) None)"
    and cnt: "retries s = int k"
    and bound: "k = 0 \<or> int k \<le> numMaxRetries cfg"
  shows "inv env cfg cb (execute env arg s)"
proof -
  let ?req = "buildRequest env (cfg_request cfg) None"
  let ?a = "attempted env cb s"
  note facts = cfg ir idle snt cnt replicate_append_same
  have out: "axios env (length (sent s)) (buildRequest env (cfg_request (this_config s)) None)
               = axios env k ?req"
    by (simp add: facts)
  show ?thesis
  proof (cases "attemptFailure env ?req (axios env k ?req)")
    case None
    then obtain r where r: "axios env k ?req = Inr r" "\<not> isTemporaryError r"
      by (cases "axios env k ?req") (auto split: if_splits)
    have ex: "execute env arg s = finish None (Some r) ?a"
      using cb r by (intro execute_success) (simp_all add: facts)
    have "verdict env cfg (Suc k) (None, Some r)"
      using r by (rule verdict_success)
    then have "pending env cfg cb (finish None (Some r) ?a)"
      by (intro pending_tick [where out = "(None, Some r)"]) (simp_all add: facts)
    then show ?thesis
      unfolding ex by (intro invI [where k = k]) (simp_all add: facts)
  next
    case (Some e)
    have ex: "execute env arg s =
                (if retryable cfg then retry env e ?a else finish (Some e) None ?a)"
      using cb Some
      by (subst execute_failure [where c = cb and e = e])
         (simp_all add: retryable_def facts)
    have v: "attemptFailure env ?req (axios env (Suc k - 1) ?req) = Some e"
      using Some by simp
    show ?thesis
    proof (cases "retryable cfg")
      case False
      then have "verdict env cfg (Suc k) (Some e, None)"
        using v by (simp add: verdict_def Let_def)
      then have "pending env cfg cb (finish (Some e) None ?a)"
        by (intro pending_tick [where out = "(Some e, None)"]) (simp_all add: facts)
      then show ?thesis
        using False unfolding ex by (intro invI [where k = k]) (simp_all add: facts)
    next
      case True
      have ex': "execute env arg s = retry env e ?a" using ex True by simp
      have "pending env cfg cb (retry env e ?a)"
      proof (cases rule: retry_cases [of ?a env e])
        case exhausted
        then have "\<not> int k < numMaxRetries cfg" by (simp add: facts)
        then have "Suc k = nat (numMaxRetries cfg) + 1" using bound by auto
        then have "verdict env cfg (Suc k) (Some (e\<lparr>err_maxRetriesExceeded := Some True\<rparr>), None)"
          using v True by (simp add: verdict_def Let_def)
        then show ?thesis unfolding exhausted(2)
          by (intro pending_tick [where out = "(Some (e\<lparr>err_maxRetriesExceeded := Some True\<rparr>), None)"])
             (simp_all add: facts)
      next
        case (scheduled t)
        then have "int (Suc k) \<le> numMaxRetries cfg" by (simp add: facts)
        then show ?thesis unfolding scheduled(2)
          by (intro pending_timer [where t = t]) (simp_all add: facts)
      next
        case (substituted strategy opts e')
        then have "int (Suc k) \<le> numMaxRetries cfg" by (simp add: facts)
        moreover have "retryStrategy cfg = Some strategy"
          using substituted(2) by (simp add: facts)
        ultimately have "verdict env cfg (Suc k) (Some e', None)"
          using v True substituted(3)
          by (simp only: verdict_def Let_def option.case) blast
        then show ?thesis unfolding substituted(4)
          by (intro pending_tick [where out = "(Some e', None)"]) (simp_all add: facts)
      next
        case (declined strategy opts)
        then have "int (Suc k) \<le> numMaxRetries cfg" by (simp add: facts)
        moreover have "retryStrategy cfg = Some strategy"
          using declined(2) by (simp add: facts)
        ultimately have "verdict env cfg (Suc k) (Some e, None)"
          using v True declined(3)
          by (simp only: verdict_def Let_def option.case) blast
        then show ?thesis unfolding declined(4)
          by (intro pending_tick [where out = "(Some e, None)"]) (simp_all add: facts)
      qed
      then show ?thesis
        unfolding ex' by (intro invI [where k = k]) (simp_all add: retry_frame facts)
    qed
  qed
qed

lemma processTick_inv:
  assumes "inv env cfg cb s" and "nextTickQueue s \<noteq> []"
  shows "inv env cfg cb (processTick s)"
proof -
  from assms obtain out where p: "timers s = []" "nextTickQueue s = [(Some cb, out)]"
      "delivered s = []" "verdict env cfg (length (sent s)) out"
    by (auto simp: inv_def pending_def)
  obtain eo ro where out: "out = (eo, ro)" by (cases out)
  have n: "eo \<noteq> None \<Longrightarrow> ro = None"
    using p(4) out verdict_normal by blast
  have pt: "processTick s = s\<lparr>nextTickQueue := [], delivered := [(cb, out)]\<rparr>"
    using n by (cases eo) (auto simp: processTick_def nextTickTask_def p out)
  have "pending env cfg cb (processTick s)"
    unfolding pt by (intro pending_done [where out = out]) (simp_all add: p)
  moreover from assms(1) obtain k where
    "sent s = replicate (Suc k) (buildRequest env (cfg_request cfg) None)"
    by (auto simp: inv_def)
  ultimately show ?thesis
    using assms(1) by (intro invI [where k = k]) (simp_all add: inv_def pt)
qed

lemma fireTimer_inv:
  assumes "inv env cfg cb s" and "nextTickQueue s = []" and "timers s \<noteq> []"
  shows "inv env cfg cb (fireTimer env s)"
proof -
  from assms obtain t where p: "timers s = [t]" "delivered s = []"
      "this_numRetries s = Some (int (length (sent s)))"
      "int (length (sent s)) \<le> numMaxRetries cfg"
    by (auto simp: inv_def pending_def)
  from assms(1) obtain k where
    k: "sent s = replicate (Suc k) (buildRequest env (cfg_request cfg) None)"
    by (auto simp: inv_def)
  have ft: "fireTimer env s = execute env None (s\<lparr>timers := []\<rparr>)"
    by (simp add: fireTimer_def p)
  show ?thesis
    unfolding ft
  proof (rule execute_inv [where k = "Suc k"])
    show "retries (s\<lparr>timers := []\<rparr>) = int (Suc k)"
      using p(3) k by (simp add: retries_def)
    show "Suc k = 0 \<or> int (Suc k) \<le> numMaxRetries cfg"
      using p(4) k by simp
  qed (insert assms k p, simp_all add: inv_def)
qed

lemma eventLoop_inv:
  "inv env cfg cb s \<Longrightarrow>
   inv env cfg cb (eventLoop env s) \<and> timers (eventLoop env s) = []
   \<and> nextTickQueue (eventLoop env s) = []"
proof (induction env s rule: eventLoop.induct)
  case (1 env s)
  show ?case
  proof (cases "nextTickQueue s \<noteq> []")
    case True
    then have "inv env cfg cb (processTick s)"
      using "1.prems" by (intro processTick_inv)
    then show ?thesis
      using "1.IH"(1) [OF True] True by (subst (1 2 3) eventLoop.simps) simp
  next
    case q: False
    show ?thesis
    proof (cases "timers s \<noteq> []")
      case True
      then have "inv env cfg cb (fireTimer env s)"
        using "1.prems" q by (intro fireTimer_inv) simp_all
      then show ?thesis
        using "1.IH"(2) [OF q True] q True by (subst (1 2 3) eventLoop.simps) simp
    next
      case False
      then show ?thesis
        using "1.prems" q by (subst (1 2 3) eventLoop.simps) simp
    qed
  qed
qed

lemma operation_inv:
  "inv env cfg cb (operation env cfg cb) \<and> timers (operation env cfg cb) = []
   \<and> nextTickQueue (operation env cfg cb) = []"
  unfolding operation_def
  by (intro eventLoop_inv execute_inv [where k = 0]) (simp_all add: retries_def)

lemma operation_outcome:
  obtains out k where
    "delivered (operation env cfg cb) = [(cb, out)]"
    "verdict env cfg (Suc k) out"
    "sent (operation env cfg cb) = replicate (Suc k) (buildRequest env (cfg_request cfg) None)"
    "thrown (operation env cfg cb) = []"
    "timers (operation env cfg cb) = []"
    "nextTickQueue (operation env cfg cb) = []"
proof -
  let ?s = "operation env cfg cb"
  have i: "inv env cfg cb ?s" and t: "timers ?s = []" and q: "nextTickQueue ?s = []"
    using operation_inv [of env cfg cb] by simp_all
  from i obtain k where k: "sent ?s = replicate (Suc k) (buildRequest env (cfg_request cfg) None)"
    by (auto simp: inv_def)
  from i t q obtain out where "delivered ?s = [(cb, out)]" "verdict env cfg (length (sent ?s)) out"
    by (auto simp: inv_def pending_def)
  then show ?thesis using that [of out k] k t q i by (simp add: inv_def)
qed

subsection \<open>The operation follows the course\<close>

lemma decide_Again: "decide env cfg n = Again \<Longrightarrow> int n - 1 < numMaxRetries cfg"
  by (auto simp: decide_def Let_def split: if_splits option.splits strategy_result.splits)

termination resolve
  by (relation "measure (\<lambda>(env, cfg, n). nat (numMaxRetries cfg + 1 - int n))")
     (auto dest: decide_Again)

declare resolve.simps [simp del]

lemma resolve_step:
  "decide env cfg n = Deliver out \<Longrightarrow> resolve env cfg n = (n, out)"
  "decide env cfg n = Again \<Longrightarrow> resolve env cfg n = resolve env cfg (Suc n)"
  by (subst resolve.simps, simp)+

lemma resolve_decide:
  "decide env cfg (fst (resolve env cfg n)) = Deliver (snd (resolve env cfg n))"
proof (induction env cfg n rule: resolve.induct)
  case (1 env cfg n)
  show ?case
  proof (cases "decide env cfg n")
    case (Deliver out)
    then show ?thesis by (simp add: resolve_step)
  next
    case Again
    then show ?thesis using "1.IH" by (simp add: resolve_step)
  qed
qed

lemma retryOptions_attempted:
  "this_config s = cfg \<Longrightarrow> retries s = int k \<Longrightarrow> length (sent s) = k \<Longrightarrow>
   retryOptions env e ((attempted env c s)\<lparr>this_numRetries := Some (int k + 1)\<rparr>)
     = strategyOptions env cfg e (Suc k)"
  by (simp add: retryOptions_def strategyOptions_def add.commute)

lemma execute_decide:
  assumes cfg: "this_config s = cfg"
    and cb: "(case arg of Some c \<Rightarrow> Some c | None \<Rightarrow> this_callback s) = Some cb"
    and ir: "this_isRetryable s = isRequestRetryable (cfg_request cfg)"
    and idle: "nextTickQueue s = []" "timers s = []"
    and snt: "sent s = replicate k (buildRequest env (cfg_request cfg) None)"
    and cnt: "retries s = int k"
  shows "case decide env cfg (Suc k) of
           Deliver out \<Rightarrow> nextTickQueue (execute env arg s) = [(Some cb, out)]
                          \<and> timers (execute env arg s) = []
         | Again \<Rightarrow> nextTickQueue (execute env arg s) = []
                    \<and> timers (execute env arg s) \<noteq> []"
proof -
  let ?req = "buildRequest env (cfg_request cfg) None"
  let ?a = "attempted env cb s"
  note facts = cfg ir idle snt cnt
  show ?thesis
  proof (cases "attemptFailure env ?req (axios env k ?req)")
    case None
    then obtain r where r: "axios env k ?req = Inr r" "\<not> isTemporaryError r"
      by (cases "axios env k ?req") (auto split: if_splits)
    have ex: "execute env arg s = finish None (Some r) ?a"
      using cb r by (intro execute_success) (simp_all add: facts)
    have "decide env cfg (Suc k) = Deliver (None, Some r)"
      using None r by (simp add: decide_def Let_def)
    then show ?thesis by (simp add: ex facts)
  next
    case (Some e)
    have ex: "execute env arg s =
                (if retryable cfg then retry env e ?a else finish (Some e) None ?a)"
      using cb Some
      by (subst execute_failure [where c = cb and e = e])
         (simp_all add: retryable_def facts)
    show ?thesis
    proof (cases "retryable cfg")
      case False
      then have "decide env cfg (Suc k) = Deliver (Some e, None)"
        using Some by (simp add: decide_def Let_def)
      then show ?thesis using False by (simp add: ex facts)
    next
      case r: True
      have ex': "execute env arg s = retry env e ?a" using ex r by simp
      have ra: "retries ?a = int k" "this_config ?a = cfg" by (simp_all add: facts)
      show ?thesis
      proof (cases "int k < numMaxRetries cfg")
        case False
        then have "decide env cfg (Suc k) =
                     Deliver (Some (e\<lparr>err_maxRetriesExceeded := Some True\<rparr>), None)"
          using Some r by (simp add: decide_def Let_def)
        moreover have "retry env e ?a =
            finish (Some (e\<lparr>err_maxRetriesExceeded := Some True\<rparr>)) None
              (?a\<lparr>this_numRetries := Some (retries ?a)\<rparr>)"
          using False ra by (intro retry_exhausted) simp
        ultimately show ?thesis by (simp add: ex' facts)
      next
        case below: True
        show ?thesis
        proof (cases "retryStrategy cfg")
          case None
          then have "decide env cfg (Suc k) = Again"
            using Some r below by (simp add: decide_def Let_def)
          moreover have "nextTickQueue (retry env e ?a) = [] \<and> timers (retry env e ?a) \<noteq> []"
            using None below
            by (auto simp: retry_def Let_def facts split: option.splits)
          ultimately show ?thesis by (simp add: ex')
        next
          case st: (Some strategy)
          have rt: "retry env e ?a =
              (let s1 = ?a\<lparr>this_numRetries := Some (retries ?a + 1)\<rparr> in
               case strategy (retryOptions env e s1) of
                 Number retryTimeout \<Rightarrow> setTimeout retryTimeout s1
               | ErrorValue e' \<Rightarrow> finish (Some e') None s1
               | OtherValue \<Rightarrow> finish (Some e) None s1)"
            using below st ra by (intro retry_strategy) simp_all
          have op: "retryOptions env e (?a\<lparr>this_numRetries := Some (int k + 1)\<rparr>)
                      = strategyOptions env cfg e (Suc k)"
            using cfg cnt snt by (intro retryOptions_attempted) simp_all
          have d: "decide env cfg (Suc k) =
                     (case strategy (strategyOptions env cfg e (Suc k)) of
                        Number t \<Rightarrow> Again
                      | ErrorValue e' \<Rightarrow> Deliver (Some e', None)
                      | OtherValue \<Rightarrow> Deliver (Some e, None))"
            using Some r below st by (simp add: decide_def Let_def)
          show ?thesis
            unfolding ex' rt d Let_def ra op
            by (cases "strategy (strategyOptions env cfg e (Suc k))") (simp_all add: facts)
        qed
      qed
    qed
  qed
qed

lemma sent_execute_callback:
  "(case arg of Some c \<Rightarrow> Some c | None \<Rightarrow> this_callback s) = Some cb \<Longrightarrow>
   length (sent (execute env arg s)) = Suc (length (sent s))"
proof -
  assume cb: "(case arg of Some c \<Rightarrow> Some c | None \<Rightarrow> this_callback s) = Some cb"
  let ?req = "buildRequest env (cfg_request (this_config s)) None"
  show ?thesis
  proof (cases "attemptFailure env ?req (axios env (length (sent s)) ?req)")
    case None
    then obtain r where "axios env (length (sent s)) ?req = Inr r" "\<not> isTemporaryError r"
      by (cases "axios env (length (sent s)) ?req") (auto split: if_splits)
    then show ?thesis using cb by (simp add: execute_success [where c = cb])
  next
    case (Some e)
    then show ?thesis using cb
      by (simp add: execute_failure [where c = cb and e = e] retry_frame)
  qed
qed

lemma execute_tracked:
  assumes cfg: "this_config s = cfg"
    and cb: "(case arg of Some c \<Rightarrow> Some c | None \<Rightarrow> this_callback s) = Some cb"
    and ir: "this_isRetryable s = isRequestRetryable (cfg_request cfg)"
    and idle: "nextTickQueue s = []" "timers s = []"
    and snt: "sent s = replicate k (buildRequest env (cfg_request cfg) None)"
    and cnt: "retries s = int k"
    and res: "resolve env cfg 1 = resolve env cfg (Suc k)"
    and len: "length (sent (execute env arg s)) = Suc k"
  shows "tracked env cfg cb (execute env arg s)"
proof (cases "decide env cfg (Suc k)")
  case (Deliver out)
  then have "nextTickQueue (execute env arg s) = [(Some cb, out)]"
      "timers (execute env arg s) = []"
    using execute_decide [OF cfg cb ir idle snt cnt] by simp_all
  moreover have "resolve env cfg 1 = (Suc k, out)"
    using res Deliver by (simp add: resolve_step)
  ultimately show ?thesis by (simp add: tracked_def len)
next
  case Again
  then have "timers (execute env arg s) \<noteq> []"
    using execute_decide [OF cfg cb ir idle snt cnt] by simp
  moreover have "resolve env cfg 1 = resolve env cfg (Suc (Suc k))"
    using res Again by (simp add: resolve_step)
  ultimately show ?thesis by (simp add: tracked_def len)
qed

lemma processTick_tracked:
  assumes "inv env cfg cb s" and "tracked env cfg cb s" and "nextTickQueue s \<noteq> []"
  shows "tracked env cfg cb (processTick s)"
proof -
  from assms(1,3) obtain out where p: "timers s = []" "nextTickQueue s = [(Some cb, out)]"
      "delivered s = []" "verdict env cfg (length (sent s)) out"
    by (auto simp: inv_def pending_def)
  obtain eo ro where out: "out = (eo, ro)" by (cases out)
  have n: "eo \<noteq> None \<Longrightarrow> ro = None"
    using p(4) out verdict_normal by blast
  have pt: "processTick s = s\<lparr>nextTickQueue := [], delivered := [(cb, out)]\<rparr>"
    using n by (cases eo) (auto simp: processTick_def nextTickTask_def p out)
  from assms(2) p have "out = snd (resolve env cfg 1)" "fst (resolve env cfg 1) = length (sent s)"
    by (simp_all add: tracked_def)
  then show ?thesis by (simp add: pt tracked_def p)
qed

lemma fireTimer_tracked:
  assumes "inv env cfg cb s" and "tracked env cfg cb s"
    and "nextTickQueue s = []" and "timers s \<noteq> []"
  shows "tracked env cfg cb (fireTimer env s)"
proof -
  from assms(1,3,4) obtain t where p: "timers s = [t]"
      "this_numRetries s = Some (int (length (sent s)))"
    by (auto simp: inv_def pending_def)
  from assms(1) obtain k where
    k: "sent s = replicate (Suc k) (buildRequest env (cfg_request cfg) None)"
    by (auto simp: inv_def)
  have i: "this_config s = cfg" "this_callback s = Some cb"
    "this_isRetryable s = isRequestRetryable (cfg_request cfg)"
    using assms(1) by (simp_all add: inv_def)
  have ft: "fireTimer env s = execute env None (s\<lparr>timers := []\<rparr>)"
    by (simp add: fireTimer_def p)
  have res: "resolve env cfg 1 = resolve env cfg (Suc (Suc k))"
    using assms(2,4) k by (simp add: tracked_def)
  show ?thesis
    unfolding ft
  proof (rule execute_tracked [where k = "Suc k"])
    show "retries (s\<lparr>timers := []\<rparr>) = int (Suc k)"
      using p(2) k by (simp add: retries_def)
    show "length (sent (execute env None (s\<lparr>timers := []\<rparr>))) = Suc (Suc k)"
      using i(2) k by (subst sent_execute_callback [where cb = cb]) simp_all
  qed (insert i k assms(3) res, simp_all)
qed

lemma eventLoop_tracked:
  "inv env cfg cb s \<Longrightarrow> tracked env cfg cb s \<Longrightarrow> tracked env cfg cb (eventLoop env s)"
proof (induction env s rule: eventLoop.induct)
  case (1 env s)
  show ?case
  proof (cases "nextTickQueue s \<noteq> []")
    case True
    have "inv env cfg cb (processTick s)" "tracked env cfg cb (processTick s)"
      using "1.prems" True by (simp_all add: processTick_inv processTick_tracked)
    then show ?thesis
      using "1.IH"(1) [OF True] True by (subst eventLoop.simps) simp
  next
    case q: False
    show ?thesis
    proof (cases "timers s \<noteq> []")
      case True
      have "inv env cfg cb (fireTimer env s)" "tracked env cfg cb (fireTimer env s)"
        using "1.prems" q True by (simp_all add: fireTimer_inv fireTimer_tracked)
      then show ?thesis
        using "1.IH"(2) [OF q True] q True by (subst eventLoop.simps) simp
    next
      case False
      then show ?thesis
        using "1.prems" q by (subst eventLoop.simps) simp
    qed
  qed
qed

lemma operation_resolve:
  "delivered (operation env cfg cb) = [(cb, snd (resolve env cfg 1))]"
  "sent (operation env cfg cb) =
     replicate (fst (resolve env cfg 1)) (buildRequest env (cfg_request cfg) None)"
proof -
  let ?s0 = "execute env (Some cb) (APIRequest cfg)"
  have i0: "inv env cfg cb ?s0"
    by (intro execute_inv [where k = 0]) (simp_all add: retries_def)
  have t0: "tracked env cfg cb ?s0"
    by (intro execute_tracked [where k = 0])
       (simp_all add: retries_def sent_execute_callback [where cb = cb])
  have t: "tracked env cfg cb (operation env cfg cb)"
    unfolding operation_def using i0 t0 by (rule eventLoop_tracked)
  have i: "inv env cfg cb (operation env cfg cb)" "timers (operation env cfg cb) = []"
    "nextTickQueue (operation env cfg cb) = []"
    using operation_inv [of env cfg cb] by simp_all
  from t i(2,3) have f: "fst (resolve env cfg 1) = length (sent (operation env cfg cb))"
    by (simp add: tracked_def)
  from t i(2,3) show "delivered (operation env cfg cb) = [(cb, snd (resolve env cfg 1))]"
    by (simp add: tracked_def)
  from i(1) obtain k where
    "sent (operation env cfg cb) = replicate (Suc k) (buildRequest env (cfg_request cfg) None)"
    by (auto simp: inv_def)
  then show "sent (operation env cfg cb) =
     replicate (fst (resolve env cfg 1)) (buildRequest env (cfg_request cfg) None)"
    using f by simp
qed

text \<open>
  C9. An operation in callback mode calls the callback exactly once, whatever the
  number of attempts: with the outcome of the first attempt that is not retried, after
  exactly that many requests, and with nothing pending or thrown afterwards. No call
  of \<open>execute\<close>, by the caller or by a timer, calls the callback itself:
  \<open>_finish\<close> only appends the call to the queue of \<open>process.nextTick\<close>.
\<close>

theorem C9_delivered_once_deferred:
  "delivered (operation env cfg cb) = [(cb, snd (resolve env cfg 1))]
   \<and> sent (operation env cfg cb)
       = replicate (fst (resolve env cfg 1)) (buildRequest env (cfg_request cfg) None)
   \<and> decide env cfg (fst (resolve env cfg 1)) = Deliver (snd (resolve env cfg 1))
   \<and> nextTickQueue (operation env cfg cb) = [] \<and> timers (operation env cfg cb) = []
   \<and> thrown (operation env cfg cb) = []
   \<and> delivered (execute env arg s) = delivered s
   \<and> delivered (fireTimer env s) = delivered s
   \<and> delivered (finish err response s) = delivered s
   \<and> nextTickQueue (finish err response s) = nextTickQueue s @ [(this_callback s, err, response)]"
proof -
  have "nextTickQueue (operation env cfg cb) = []" "timers (operation env cfg cb) = []"
    "thrown (operation env cfg cb) = []"
    using operation_inv [of env cfg cb] by (simp_all add: inv_def)
  moreover have "delivered (execute env arg s) = delivered s"
    using counted_execute [of s env arg] by (simp add: counted_def)
  moreover have "delivered (fireTimer env s) = delivered s"
    using counted_fireTimer [of s env] by (simp add: counted_def)
  ultimately show ?thesis
    by (simp add: operation_resolve resolve_decide)
qed

text \<open>
  An instance of C9: the server answers 503 twice and then 200; the callback is called
  once, with the 200 response, after three requests.
\<close>

theorem C9_witness:
  "delivered (operation recoveringEnv (exampleConfig exampleOptions 5 None) 7)
     = [(7, None, Some \<lparr>resp_request = exampleRequest, resp_status = 200,
                          resp_headers = [], resp_data = None\<rparr>)]
   \<and> sent (operation recoveringEnv (exampleConfig exampleOptions 5 None) 7)
       = [exampleRequest, exampleRequest, exampleRequest]"
proof -
  let ?C = "exampleConfig exampleOptions 5 None"
  note defs = decide_def retryable_def recoveringEnv_def recovering_def example_defs
    isJWT_def isRequestRetryable_def isTemporaryError_def retryableStatusCodes_def
    REQUEST_TIMEOUT_def TOO_MANY_REQUESTS_def INSUFFICIENT_STORAGE_def
    HTTP_STATUS_CODE_SERVER_ERROR_BLOCK_RANGE_def Let_def
  have 1: "decide recoveringEnv ?C 1 = Again" by (simp add: defs)
  have 2: "decide recoveringEnv ?C 2 = Again" by (simp add: defs)
  have 3: "decide recoveringEnv ?C 3 =
             Deliver (None, Some \<lparr>resp_request = exampleRequest, resp_status = 200,
                                   resp_headers = [], resp_data = None\<rparr>)"
    by (simp add: defs)
  have "resolve recoveringEnv ?C 1 = resolve recoveringEnv ?C (Suc 1)"
    using 1 by (rule resolve_step)
  also have "\<dots> = resolve recoveringEnv ?C (Suc 2)"
    using 2 by (simp add: resolve_step numeral_2_eq_2)
  also have "\<dots> = (3, None, Some \<lparr>resp_request = exampleRequest, resp_status = 200,
                                     resp_headers = [], resp_data = None\<rparr>)"
    using 3 by (simp add: resolve_step numeral_3_eq_3)
  finally have r: "resolve recoveringEnv ?C 1 =
      (3, None, Some \<lparr>resp_request = exampleRequest, resp_status = 200,
                       resp_headers = [], resp_data = None\<rparr>)" .
  have b: "buildRequest recoveringEnv (cfg_request ?C) None = exampleRequest"
    by (simp add: recoveringEnv_def example_defs)
  have r': "resolve recoveringEnv ?C (Suc 0) =
      (3, None, Some \<lparr>resp_request = exampleRequest, resp_status = 200,
                       resp_headers = [], resp_data = None\<rparr>)"
    using r by simp
  show ?thesis
    using C9_delivered_once_deferred [of recoveringEnv ?C 7 None "APIRequest ?C" None None]
    by (simp add: r' b numeral_3_eq_3)
qed

text \<open>
  C3. The request is retryable and every attempt fails, by a rejection or by a
  temporary response. Then the operation makes at most one attempt more than the
  maximum; when it has made that many, the callback is called once, with the error of
  the last attempt carrying \<open>maxRetriesExceeded: true\<close>, and nothing is pending
  afterwards; and it does make that many unless a custom strategy returns something
  that is not a number.
\<close>

theorem C3_retries_exhausted:
  assumes "opt_formData (cfg_request cfg) = None"
    and "\<not> isJWT (cfg_request cfg)"
    and "\<forall>i. attemptFailure env (buildRequest env (cfg_request cfg) None)
               (axios env i (buildRequest env (cfg_request cfg) None)) \<noteq> None"
  shows "length (sent (operation env cfg cb)) \<le> nat (numMaxRetries cfg) + 1
       \<and> (length (sent (operation env cfg cb)) = nat (numMaxRetries cfg) + 1 \<longrightarrow>
            (\<exists>e. attemptFailure env (buildRequest env (cfg_request cfg) None)
                    (axios env (nat (numMaxRetries cfg))
                       (buildRequest env (cfg_request cfg) None)) = Some e
                 \<and> delivered (operation env cfg cb) =
                     [(cb, Some (e\<lparr>err_maxRetriesExceeded := Some True\<rparr>), None)]))
       \<and> ((\<forall>strategy opts. retryStrategy cfg = Some strategy \<longrightarrow>
                (\<exists>t. strategy opts = Number t)) \<longrightarrow>
            sent (operation env cfg cb) =
              replicate (nat (numMaxRetries cfg) + 1) (buildRequest env (cfg_request cfg) None))
       \<and> timers (operation env cfg cb) = []
       \<and> nextTickQueue (operation env cfg cb) = []"
proof -
  let ?req = "buildRequest env (cfg_request cfg) None"
  let ?op = "operation env cfg cb"
  let ?m = "nat (numMaxRetries cfg)"
  have r: "retryable cfg"
    using assms(1,2) by (simp add: retryable_def isRequestRetryable_def)
  obtain out k where o: "delivered ?op = [(cb, out)]" "verdict env cfg (Suc k) out"
      "sent ?op = replicate (Suc k) ?req" "timers ?op = []" "nextTickQueue ?op = []"
    by (rule operation_outcome [of env cfg cb]) blast
  have "attemptFailure env ?req (axios env k ?req) \<noteq> None"
    using assms(3) by (rule spec)
  then obtain e where e: "attemptFailure env ?req (axios env k ?req) = Some e"
    by blast
  from o(2) e r have v:
    "(Suc k = ?m + 1 \<and> out = (Some (e\<lparr>err_maxRetriesExceeded := Some True\<rparr>), None))
     \<or> (int (Suc k) \<le> numMaxRetries cfg
         \<and> (\<exists>strategy opts. retryStrategy cfg = Some strategy
              \<and> ((\<exists>e'. strategy opts = ErrorValue e' \<and> out = (Some e', None))
                 \<or> (strategy opts = OtherValue \<and> out = (Some e, None)))))"
    by (simp add: verdict_def Let_def)
  have 1: "length (sent ?op) \<le> ?m + 1"
    using v o(3) by auto
  have 2: "\<exists>e. attemptFailure env ?req (axios env ?m ?req) = Some e
              \<and> delivered ?op = [(cb, Some (e\<lparr>err_maxRetriesExceeded := Some True\<rparr>), None)]"
    if "length (sent ?op) = ?m + 1"
  proof -
    from that o(3) have k: "k = ?m" by simp
    then have "\<not> int (Suc k) \<le> numMaxRetries cfg" by simp
    with v have "out = (Some (e\<lparr>err_maxRetriesExceeded := Some True\<rparr>), None)" by blast
    then show ?thesis using e k o(1) by simp
  qed
  have 3: "sent ?op = replicate (?m + 1) ?req"
    if "\<forall>strategy opts. retryStrategy cfg = Some strategy \<longrightarrow> (\<exists>t. strategy opts = Number t)"
  proof -
    have "Suc k = ?m + 1"
    proof (rule ccontr)
      assume "Suc k \<noteq> ?m + 1"
      with v obtain strategy opts where a: "retryStrategy cfg = Some strategy"
          "(\<exists>e'. strategy opts = ErrorValue e') \<or> strategy opts = OtherValue"
        by blast
      from that a(1) obtain t where "strategy opts = Number t" by blast
      with a(2) show False by auto
    qed
    then show ?thesis using o(3) by simp
  qed
  show ?thesis using 1 2 3 o(4,5) by blast
qed

text \<open>
  An instance of C3: with two retries allowed and a server that always answers 429,
  three attempts are made and the marked 429 error is delivered.
\<close>

theorem C3_witness:
  "opt_formData (cfg_request (exampleConfig exampleOptions 2 None)) = None
   \<and> \<not> isJWT (cfg_request (exampleConfig exampleOptions 2 None))
   \<and> delivered (operation (exampleEnv (answering 429 [])) (exampleConfig exampleOptions 2 None) 7)
       = [(7, Some (exampleError 429 []\<lparr>err_maxRetriesExceeded := Some True\<rparr>), None)]
   \<and> sent (operation (exampleEnv (answering 429 [])) (exampleConfig exampleOptions 2 None) 7)
       = [exampleRequest, exampleRequest, exampleRequest]"
proof -
  let ?C = "exampleConfig exampleOptions 2 None"
  let ?E = "exampleEnv (answering 429 [])"
  have h1: "opt_formData (cfg_request ?C) = None"
    by (simp add: example_defs)
  have h2: "\<not> isJWT (cfg_request ?C)"
    by (simp add: example_defs isJWT_def)
  have h3: "\<forall>i. attemptFailure ?E (buildRequest ?E (cfg_request ?C) None)
                 (axios ?E i (buildRequest ?E (cfg_request ?C) None)) \<noteq> None"
    by (simp add: example_defs engine_defs)
  have s: "\<forall>strategy opts. retryStrategy ?C = Some strategy \<longrightarrow> (\<exists>t. strategy opts = Number t)"
    by (simp add: example_defs)
  have n: "nat (numMaxRetries ?C) + 1 = 3" "buildRequest ?E (cfg_request ?C) None = exampleRequest"
    by (simp_all add: example_defs)
  have a: "attemptFailure ?E exampleRequest (axios ?E 2 exampleRequest) = Some (exampleError 429 [])"
    by (simp add: example_defs engine_defs)
  from C3_retries_exhausted [OF h1 h2 h3, of 7] s
  have "sent (operation ?E ?C 7) = replicate 3 exampleRequest"
    and "length (sent (operation ?E ?C 7)) = 3 \<longrightarrow>
          (\<exists>e. attemptFailure ?E exampleRequest (axios ?E (nat (numMaxRetries ?C)) exampleRequest) = Some e
             \<and> delivered (operation ?E ?C 7) = [(7, Some (e\<lparr>err_maxRetriesExceeded := Some True\<rparr>), None)])"
    unfolding n by blast+
  then show ?thesis using h1 h2 a
    by (auto simp: numeral_3_eq_3 exampleConfig_def)
qed

text \<open>
  C10, amended. If the last attempt of an operation was rejected by the transport,
  with an error that has no response and no status of its own, then the callback is
  called once with an error. Either retries remained for a retried request and the
  custom strategy, called by \<open>_retry\<close> after that attempt, returned this error as
  its own; or the error is the rejection with the request attached, marked or not as
  having used up the retries, and has neither a response nor a status.
\<close>

theorem C10_transport_error_shape:
  assumes "axios env (length (sent (operation env cfg cb)) - 1)
             (buildRequest env (cfg_request cfg) None) = Inl e0"
    and "err_response e0 = None" and "err_status e0 = None"
  shows "\<exists>e. delivered (operation env cfg cb) = [(cb, Some e, None)]
           \<and> ((retryable cfg
               \<and> int (length (sent (operation env cfg cb))) - 1 < numMaxRetries cfg
               \<and> (\<exists>strategy. retryStrategy cfg = Some strategy
                    \<and> strategy (strategyOptions env cfg
                                  (e0\<lparr>err_request := Some (buildRequest env (cfg_request cfg) None)\<rparr>)
                                  (length (sent (operation env cfg cb)))) = ErrorValue e))
              \<or> ((e = e0\<lparr>err_request := Some (buildRequest env (cfg_request cfg) None)\<rparr>
                   \<or> e = e0\<lparr>err_request := Some (buildRequest env (cfg_request cfg) None),
                             err_maxRetriesExceeded := Some True\<rparr>)
                  \<and> err_request e = Some (buildRequest env (cfg_request cfg) None)
                  \<and> err_response e = None \<and> err_status e = None))"
proof -
  let ?req = "buildRequest env (cfg_request cfg) None"
  let ?op = "operation env cfg cb"
  let ?n = "fst (resolve env cfg 1)"
  let ?e1 = "e0\<lparr>err_request := Some ?req\<rparr>"
  have n: "length (sent ?op) = ?n"
    by (simp add: operation_resolve)
  have d: "decide env cfg ?n = Deliver (snd (resolve env cfg 1))"
    by (rule resolve_decide)
  have a: "attemptFailure env ?req (axios env (?n - 1) ?req) = Some ?e1"
    using assms(1) n by simp
  have del: "delivered ?op = [(cb, snd (resolve env cfg 1))]"
    by (simp add: operation_resolve)
  show ?thesis
  proof (cases "retryable cfg \<and> int ?n - 1 < numMaxRetries cfg")
    case False
    then have "snd (resolve env cfg 1) = (Some ?e1, None)
               \<or> snd (resolve env cfg 1) = (Some (?e1\<lparr>err_maxRetriesExceeded := Some True\<rparr>), None)"
      using d a by (auto simp: decide_def Let_def split: if_splits)
    then show ?thesis using del assms(2,3) by auto
  next
    case True
    show ?thesis
    proof (cases "retryStrategy cfg")
      case None
      then have False using d a True by (simp add: decide_def Let_def)
      then show ?thesis ..
    next
      case (Some strategy)
      show ?thesis
      proof (cases "strategy (strategyOptions env cfg ?e1 ?n)")
        case (Number t)
        then have False using d a True Some by (simp add: decide_def Let_def)
        then show ?thesis ..
      next
        case (ErrorValue e')
        then have "snd (resolve env cfg 1) = (Some e', None)"
          using d a True Some by (simp add: decide_def Let_def)
        then show ?thesis using del True Some ErrorValue n by simp
      next
        case OtherValue
        then have "snd (resolve env cfg 1) = (Some ?e1, None)"
          using d a True Some by (simp add: decide_def Let_def)
        then show ?thesis using del assms(2,3) by simp
      qed
    qed
  qed
qed

text \<open>
  An instance of C10: every connection is refused, one retry is allowed and
  \<open>exampleStrategy\<close> grants it; the error delivered after the second request has the
  request attached and neither a response nor a status.
\<close>

theorem C10_witness:
  "axios (exampleEnv refusing)
     (length (sent (operation (exampleEnv refusing)
                      (exampleConfig exampleOptions 1 (Some exampleStrategy)) 7)) - 1)
     (buildRequest (exampleEnv refusing)
        (cfg_request (exampleConfig exampleOptions 1 (Some exampleStrategy))) None)
     = Inl (Error ''connect ECONNREFUSED'')
   \<and> err_response (Error ''connect ECONNREFUSED'') = None
   \<and> err_status (Error ''connect ECONNREFUSED'') = None
   \<and> sent (operation (exampleEnv refusing)
              (exampleConfig exampleOptions 1 (Some exampleStrategy)) 7)
       = [exampleRequest, exampleRequest]
   \<and> (\<exists>e. delivered (operation (exampleEnv refusing)
                         (exampleConfig exampleOptions 1 (Some exampleStrategy)) 7)
             = [(7, Some e, None)]
          \<and> err_request e = Some exampleRequest
          \<and> err_response e = None \<and> err_status e = None)"
proof -
  let ?E = "exampleEnv refusing"
  let ?C = "exampleConfig exampleOptions 1 (Some exampleStrategy)"
  have h1: "axios ?E (length (sent (operation ?E ?C 7)) - 1)
              (buildRequest ?E (cfg_request ?C) None) = Inl (Error ''connect ECONNREFUSED'')"
    by (simp add: exampleEnv_def refusing_def)
  have h2: "err_response (Error ''connect ECONNREFUSED'') = None"
    and h3: "err_status (Error ''connect ECONNREFUSED'') = None"
    by (simp_all add: Error_def)
  have b: "buildRequest ?E (cfg_request ?C) None = exampleRequest" "numMaxRetries ?C = 1"
    by (simp_all add: example_defs)
  have s: "sent (operation ?E ?C 7) = [exampleRequest, exampleRequest]"
    by (simp add: engine_defs example_defs eventLoop.simps)
  show ?thesis
    using C10_transport_error_shape [OF h1 h2 h3] h1 h2 h3 s by (auto simp: b)
qed

text \<open>
  C10 as stated fails when a custom strategy substitutes its own error: the error
  delivered after a refused connection is the strategy's, without the request.
\<close>

theorem C10_counterexample:
  "axios (exampleEnv refusing) 0 exampleRequest = Inl (Error ''connect ECONNREFUSED'')
   \<and> sent (operation (exampleEnv refusing)
             (exampleConfig exampleOptions 1 (Some substitutingStrategy)) 7) = [exampleRequest]
   \<and> delivered (operation (exampleEnv refusing)
                  (exampleConfig exampleOptions 1 (Some substitutingStrategy)) 7)
       = [(7, Some (Error ''custom''), None)]
   \<and> err_request (Error ''custom'') = None"
  by (simp add: engine_defs example_defs eventLoop.simps)

section \<open>Sensitive headers\<close>

text \<open>
  C1 fails on the code. With an \<open>Authorization\<close> header, no retries allowed and
  a server answering 503, the error delivered to the callback carries the request with
  the header as it was sent; \<open>cleanSensitiveHeaders\<close> would have replaced it, but
  \<open>_handleResponse\<close> does not call it.
\<close>

theorem C1_authorization_delivered:
  "delivered (operation (exampleEnv (answering 503 [])) (exampleConfig exampleOptions 0 None) 7)
     = [(7, Some (exampleError 503 []\<lparr>err_maxRetriesExceeded := Some True\<rparr>), None)]
   \<and> sent (operation (exampleEnv (answering 503 [])) (exampleConfig exampleOptions 0 None) 7)
       = [exampleRequest]
   \<and> err_request (exampleError 503 []) = Some exampleRequest
   \<and> req_headers exampleRequest = Some [(''Authorization'', JStr ''Bearer secret'')]
   \<and> req_headers (cleanSensitiveHeaders exampleRequest)
       = Some [(''Authorization'', JStr ''[REMOVED BY SDK]'')]"
  by (simp add: engine_defs example_defs eventLoop.simps
        cleanSensitiveHeaders_def isSet_def REMOVED_HEADER_MESSAGE_def)

end
